theory Spec2Isabelle
  imports Main
begin

section \<open>Data model (packages/db/src/schema.ts, services/ocr-extraction.ts)\<close>

text \<open>
  Identifiers are UUID strings and a PDF is a byte buffer; both are opaque to the pipeline.
  A JavaScript error is a value: \<open>Error msg\<close> is \<open>new Error(msg)\<close>, \<open>StoreError\<close> is
  what a rejected statement of the relational store throws, \<open>ZodError\<close> is a failed
  input validation of a tRPC procedure.
\<close>

type_synonym uuid = string
type_synonym Buffer = string

datatype error = Error string | StoreError | ZodError

datatype DocumentExtactionStatusEnumType = IDEAL | PROCESSING | COMPLETED | FAILED

text \<open>The handle \<open>db\<close> through which the store is reached; \<open>db?: DB\<close> is a \<open>DB option\<close>.\<close>

datatype DB = DB

text \<open>Rows of \<open>upload_documents\<close>. Timestamps are milliseconds.\<close>

record uploadDocumentsRow =
  doc_documentId :: uuid
  doc_userId :: uuid
  doc_instructionNumber :: string
  doc_documentName :: string
  doc_fileUrl :: string
  doc_fileSizeInBytes :: int
  doc_companyId :: "uuid option"
  doc_branchId :: "uuid option"
  doc_extractionStatus :: DocumentExtactionStatusEnumType
  doc_extractionId :: "uuid option"
  doc_createdAt :: int

text \<open>The interface \<open>ExtractedPODData\<close>: an optional field is an option, a \<open>null\<close>
  array element is \<open>None\<close>.\<close>

record ExtractedPODData =
  pageNumber :: nat
  containerNumbers :: "string option list"
  containerSizes :: "string option list"
  fullEmptyStatuses :: "string option list"
  pageDate :: "string option"
  instructionNumber :: "string option"
  vehicleNumber :: "string option"
  collectedFrom :: "string option"
  deliveredTo :: "string option"
  unsureFields :: "string list"

text \<open>Rows of \<open>extracted_page_data\<close>.\<close>

record extractedPageDataRow =
  row_documentId :: uuid
  row_pageNumber :: nat
  row_containerNumbers :: "string option list"
  row_containerSizes :: "string option list"
  row_fullEmptyStatuses :: "string option list"
  row_pageDate :: "string option"
  row_instructionNumber :: "string option"
  row_vehicleNumber :: "string option"
  row_collectedFrom :: "string option"
  row_deliveredTo :: "string option"
  row_unsureFields :: "string list"

text \<open>The interface \<open>TokenUsageData\<close> and the rows of \<open>document_token_usage\<close>.\<close>

record TokenUsageData =
  requestId :: uuid
  inputTokens :: int
  toolUsePromptTokens :: "int option"
  cachedContentTokens :: "int option"
  candidatesTokens :: "int option"
  thoughtsTokens :: "int option"
  outputTokens :: int
  totalTokens :: int
  durationMs :: int

record documentTokenUsageRow =
  tu_documentId :: uuid
  tu_requestId :: uuid
  tu_inputTokens :: int
  tu_toolUsePromptTokens :: int
  tu_cachedContentTokens :: int
  tu_candidatesTokens :: int
  tu_thoughtsTokens :: int
  tu_outputTokens :: int
  tu_totalTokens :: int
  tu_durationMs :: int

section \<open>The hosted model, the PDF parser and the store as an environment\<close>

text \<open>
  What \<open>generateObject\<close> resolves to: the object validated against \<open>ExtractedPODSchema\<close>
  and the usage metrics, when the provider reports them. A token count that is
  \<open>undefined\<close> or \<open>NaN\<close> is \<open>None\<close>.
\<close>

record ExtractedPOD =
  obj_containerNumbers :: "string option list"
  obj_containerSizes :: "string option list"
  obj_fullEmptyStatuses :: "string option list"
  obj_pageDate :: "string option"
  obj_instructionNumber :: "string option"
  obj_vehicleNumber :: "string option"
  obj_collectedFrom :: "string option"
  obj_deliveredTo :: "string option"
  obj_unsureFields :: "string list"

record LanguageModelUsage =
  promptTokens :: "int option"
  completionTokens :: "int option"
  usageTotalTokens :: "int option"

record GenerateObjectResult =
  result_object :: ExtractedPOD
  result_usage :: "LanguageModelUsage option"

text \<open>
  The external collaborators of one execution:
  \<^item> \<open>randomUUID n\<close> is the \<open>n\<close>-th value \<open>crypto.randomUUID()\<close> returns;
  \<^item> \<open>defaultRandom n\<close> is the \<open>n\<close>-th primary key the store generates;
  \<^item> \<open>pdf buf\<close> is what \<open>pdf-parse\<close> gives for the buffer: its \<open>numpages\<close>, or it throws;
  \<^item> \<open>generateObject buf p\<close> is the outcome of the model call made for page \<open>p\<close> (the
    object and usage, or a thrown error: transport, provider or schema validation), and
    the milliseconds the call took;
  \<^item> \<open>storeRejects n\<close> says whether the store throws on the \<open>n\<close>-th write statement it
    receives (a violated constraint, a lost connection);
  \<^item> \<open>storeTime n\<close> is the milliseconds the \<open>n\<close>-th write statement takes, and
    \<open>pdfTime buf\<close> the milliseconds parsing the buffer takes;
  \<^item> \<open>isUuid\<close> and \<open>isUrl\<close> are the format checks \<open>z.string().uuid()\<close> and
    \<open>z.string().url()\<close> of the validation library.
\<close>

record env =
  randomUUID :: "nat \<Rightarrow> uuid"
  defaultRandom :: "nat \<Rightarrow> uuid"
  pdf :: "Buffer \<Rightarrow> error + nat"
  pdfTime :: "Buffer \<Rightarrow> nat"
  generateObject :: "Buffer \<Rightarrow> nat \<Rightarrow> (error + GenerateObjectResult) \<times> nat"
  storeRejects :: "nat \<Rightarrow> bool"
  storeTime :: "nat \<Rightarrow> nat"
  isUuid :: "string \<Rightarrow> bool"
  isUrl :: "string \<Rightarrow> bool"

text \<open>
  What a poller of the store or a reader of the process log can see happen, in order: a
  status written to a document row, and a model call issued for a page.
\<close>

datatype event =
  StatusSet uuid DocumentExtactionStatusEnumType "uuid option"
| ModelCalled uuid nat

text \<open>
  The state threaded through every operation: the three tables, the wall clock
  (\<open>Date.now()\<close>), how many UUIDs the process and the store have drawn, how many write
  statements the store has received, and the journal of events. Time passes while an
  awaited operation is outstanding: a model call, a write statement, the parsing of the
  PDF.
\<close>

record world =
  uploadDocuments :: "uploadDocumentsRow list"
  extractedPageData :: "extractedPageDataRow list"
  documentTokenUsage :: "documentTokenUsageRow list"
  clock :: int
  uuidCount :: nat
  keyCount :: nat
  writes :: nat
  journal :: "event list"

text \<open>
  One write statement: the store counts it and takes its time, and either throws, leaving
  the tables as they are, or applies the change.
\<close>

definition statementDone :: "env \<Rightarrow> world \<Rightarrow> world" where
  "statementDone e w =
     w\<lparr>writes := Suc (writes w), clock := clock w + int (storeTime e (writes w))\<rparr>"

definition storeWrite :: "env \<Rightarrow> (world \<Rightarrow> world) \<Rightarrow> world \<Rightarrow> (error + unit) \<times> world" where
  "storeWrite e change w =
     (if storeRejects e (writes w)
      then (Inl StoreError, statementDone e w)
      else (Inr (), change (statementDone e w)))"

text \<open>JavaScript's \<open>x || 0\<close> on an optional number: \<open>undefined\<close>, \<open>NaN\<close> and \<open>0\<close> give \<open>0\<close>.\<close>

definition orZero :: "int option \<Rightarrow> int" where
  "orZero x = (case x of None \<Rightarrow> 0 | Some n \<Rightarrow> n)"

section \<open>The extraction service (services/ocr-extraction.ts)\<close>

text \<open>
  \<open>updateDocumentStatus\<close>: without a handle it returns at once. Otherwise one UPDATE sets
  the status of every row with that id; a field of \<open>set\<close> that is \<open>undefined\<close> is left
  out of the statement, so an absent extraction id keeps the stored one.
\<close>

definition setStatus ::
    "uuid \<Rightarrow> DocumentExtactionStatusEnumType \<Rightarrow> uuid option \<Rightarrow> uploadDocumentsRow \<Rightarrow> uploadDocumentsRow" where
  "setStatus documentId status extractionId r =
     (if doc_documentId r = documentId
      then (case extractionId of
              None \<Rightarrow> r\<lparr>doc_extractionStatus := status\<rparr>
            | Some x \<Rightarrow> r\<lparr>doc_extractionStatus := status, doc_extractionId := Some x\<rparr>)
      else r)"

definition updateDocumentStatus ::
    "env \<Rightarrow> uuid \<Rightarrow> DocumentExtactionStatusEnumType \<Rightarrow> uuid option \<Rightarrow> DB option \<Rightarrow> world
      \<Rightarrow> (error + unit) \<times> world" where
  "updateDocumentStatus e documentId status extractionId db w =
     (case db of
        None \<Rightarrow> (Inr (), w)
      | Some _ \<Rightarrow>
          storeWrite e
            (\<lambda>w'. w'\<lparr>uploadDocuments := map (setStatus documentId status extractionId) (uploadDocuments w'),
                     journal := journal w' @ [StatusSet documentId status extractionId]\<rparr>)
            w)"

text \<open>
  \<open>saveExtractedPageData\<close>: one INSERT into \<open>extracted_page_data\<close> of the values built
  from the page data. The unique index on (document id, page number) makes the store throw
  when the page already has a row; every other reason to throw is the environment's.
\<close>

definition pageValues :: "uuid \<Rightarrow> ExtractedPODData \<Rightarrow> extractedPageDataRow" where
  "pageValues documentId pageData =
     \<lparr>row_documentId = documentId,
      row_pageNumber = pageNumber pageData,
      row_containerNumbers = containerNumbers pageData,
      row_containerSizes = containerSizes pageData,
      row_fullEmptyStatuses = fullEmptyStatuses pageData,
      row_pageDate = pageDate pageData,
      row_instructionNumber = instructionNumber pageData,
      row_vehicleNumber = vehicleNumber pageData,
      row_collectedFrom = collectedFrom pageData,
      row_deliveredTo = deliveredTo pageData,
      row_unsureFields = unsureFields pageData\<rparr>"

definition saveExtractedPageData ::
    "env \<Rightarrow> uuid \<Rightarrow> ExtractedPODData \<Rightarrow> DB \<Rightarrow> world \<Rightarrow> (error + unit) \<times> world" where
  "saveExtractedPageData e documentId pageData db w =
     (if \<exists>r \<in> set (extractedPageData w).
           row_documentId r = documentId \<and> row_pageNumber r = pageNumber pageData
      then (Inl StoreError, statementDone e w)
      else storeWrite e
             (\<lambda>w'. w'\<lparr>extractedPageData :=
                        extractedPageData w' @ [pageValues documentId pageData]\<rparr>)
             w)"

text \<open>\<open>saveTokenUsage\<close>: one INSERT into \<open>document_token_usage\<close>.\<close>

definition usageValues :: "uuid \<Rightarrow> TokenUsageData \<Rightarrow> documentTokenUsageRow" where
  "usageValues documentId usage =
     \<lparr>tu_documentId = documentId,
      tu_requestId = requestId usage,
      tu_inputTokens = inputTokens usage,
      tu_toolUsePromptTokens = orZero (toolUsePromptTokens usage),
      tu_cachedContentTokens = orZero (cachedContentTokens usage),
      tu_candidatesTokens = orZero (candidatesTokens usage),
      tu_thoughtsTokens = orZero (thoughtsTokens usage),
      tu_outputTokens = outputTokens usage,
      tu_totalTokens = totalTokens usage,
      tu_durationMs = durationMs usage\<rparr>"

definition saveTokenUsage ::
    "env \<Rightarrow> uuid \<Rightarrow> TokenUsageData \<Rightarrow> DB \<Rightarrow> world \<Rightarrow> (error + unit) \<times> world" where
  "saveTokenUsage e documentId usage db w =
     storeWrite e
       (\<lambda>w'. w'\<lparr>documentTokenUsage :=
                  documentTokenUsage w' @ [usageValues documentId usage]\<rparr>)
       w"

text \<open>The page data \<open>extractPageData\<close> prepares from the model's object.\<close>

definition pageDataOf :: "nat \<Rightarrow> ExtractedPOD \<Rightarrow> ExtractedPODData" where
  "pageDataOf pageNum extractedData =
     \<lparr>pageNumber = pageNum,
      containerNumbers = obj_containerNumbers extractedData,
      containerSizes = obj_containerSizes extractedData,
      fullEmptyStatuses = obj_fullEmptyStatuses extractedData,
      pageDate = obj_pageDate extractedData,
      instructionNumber = obj_instructionNumber extractedData,
      vehicleNumber = obj_vehicleNumber extractedData,
      collectedFrom = obj_collectedFrom extractedData,
      deliveredTo = obj_deliveredTo extractedData,
      unsureFields = obj_unsureFields extractedData\<rparr>"

text \<open>The token usage \<open>extractPageData\<close> hands to \<open>saveTokenUsage\<close>; \<open>now\<close> is \<open>Date.now()\<close>.\<close>

definition tokenUsageOf :: "uuid \<Rightarrow> LanguageModelUsage \<Rightarrow> int \<Rightarrow> int \<Rightarrow> TokenUsageData" where
  "tokenUsageOf reqId u now startTime =
     \<lparr>requestId = reqId,
      inputTokens = orZero (promptTokens u),
      toolUsePromptTokens = None,
      cachedContentTokens = None,
      candidatesTokens = Some (orZero (completionTokens u)),
      thoughtsTokens = None,
      outputTokens = orZero (completionTokens u),
      totalTokens = orZero (usageTotalTokens u),
      durationMs = now - startTime\<rparr>"

text \<open>
  \<open>extractPageData\<close>: draw a request id, call the model with the whole buffer, save the
  page, save the usage if there is one. Whatever throws is logged and thrown again.
\<close>

definition extractPageData ::
    "env \<Rightarrow> Buffer \<Rightarrow> nat \<Rightarrow> uuid \<Rightarrow> DB \<Rightarrow> int \<Rightarrow> world \<Rightarrow> (error + ExtractedPODData) \<times> world" where
  "extractPageData e pdfBuffer pageNum documentId db startTime w =
     (let reqId = randomUUID e (uuidCount w);
          w1 = w\<lparr>uuidCount := Suc (uuidCount w)\<rparr>;
          call = generateObject e pdfBuffer pageNum;
          w2 = w1\<lparr>clock := clock w1 + int (snd call),
                  journal := journal w1 @ [ModelCalled documentId pageNum]\<rparr>
      in case fst call of
           Inl err \<Rightarrow> (Inl err, w2)
         | Inr result \<Rightarrow>
             (let pageData = pageDataOf pageNum (result_object result)
              in case saveExtractedPageData e documentId pageData db w2 of
                   (Inl err, w3) \<Rightarrow> (Inl err, w3)
                 | (Inr _, w3) \<Rightarrow>
                     (case result_usage result of
                        None \<Rightarrow> (Inr pageData, w3)
                      | Some u \<Rightarrow>
                          (case saveTokenUsage e documentId
                                  (tokenUsageOf reqId u (clock w3) startTime) db w3 of
                             (Inl err, w4) \<Rightarrow> (Inl err, w4)
                           | (Inr _, w4) \<Rightarrow> (Inr pageData, w4)))))"

text \<open>The record pushed in the \<open>catch\<close> of the page loop.\<close>

definition placeholder :: "nat \<Rightarrow> ExtractedPODData" where
  "placeholder pageNum =
     \<lparr>pageNumber = pageNum,
      containerNumbers = [],
      containerSizes = [],
      fullEmptyStatuses = [],
      pageDate = None,
      instructionNumber = None,
      vehicleNumber = None,
      collectedFrom = None,
      deliveredTo = None,
      unsureFields = [''*all*'']\<rparr>"

text \<open>
  The loop \<open>for (let pageNum = 1; pageNum <= numPages; pageNum++)\<close>, entered at
  \<open>pageNum\<close> with the pages pushed so far.
\<close>

function pagesLoop ::
    "env \<Rightarrow> Buffer \<Rightarrow> uuid \<Rightarrow> DB \<Rightarrow> int \<Rightarrow> nat \<Rightarrow> nat \<Rightarrow> ExtractedPODData list \<Rightarrow> world
      \<Rightarrow> ExtractedPODData list \<times> world" where
  "pagesLoop e pdfBuffer documentId db startTime numPages pageNum extractedPages w =
     (if pageNum \<le> numPages
      then (case extractPageData e pdfBuffer pageNum documentId db startTime w of
              (Inr pageData, w') \<Rightarrow>
                pagesLoop e pdfBuffer documentId db startTime numPages (Suc pageNum)
                  (extractedPages @ [pageData]) w'
            | (Inl pageError, w') \<Rightarrow>
                pagesLoop e pdfBuffer documentId db startTime numPages (Suc pageNum)
                  (extractedPages @ [placeholder pageNum]) w')
      else (extractedPages, w))"
  by pat_completeness auto
termination
  by (relation "measure (\<lambda>(e, pdfBuffer, documentId, db, startTime, numPages, pageNum, extractedPages, w).
        Suc numPages - pageNum)") auto

declare pagesLoop.simps [simp del]

text \<open>The outer \<open>catch\<close>: mark the document FAILED and throw the error again; if the
  status update itself throws, that error is the one that escapes.\<close>

definition failRun ::
    "env \<Rightarrow> uuid \<Rightarrow> uuid \<Rightarrow> DB \<Rightarrow> error \<Rightarrow> world \<Rightarrow> (error + ExtractedPODData list) \<times> world" where
  "failRun e documentId extractionId db err w =
     (case updateDocumentStatus e documentId FAILED (Some extractionId) (Some db) w of
        (Inl err', w') \<Rightarrow> (Inl err', w')
      | (Inr _, w') \<Rightarrow> (Inl err, w'))"

text \<open>The state once \<open>await pdf(pdfBuffer)\<close> has settled: only time has passed.\<close>

definition parsed :: "env \<Rightarrow> Buffer \<Rightarrow> world \<Rightarrow> world" where
  "parsed e pdfBuffer w = w\<lparr>clock := clock w + int (pdfTime e pdfBuffer)\<rparr>"

text \<open>\<open>extractPODDataFromPDF\<close>, the whole run for one document.\<close>

definition extractPODDataFromPDF ::
    "env \<Rightarrow> uuid \<Rightarrow> Buffer \<Rightarrow> DB \<Rightarrow> world \<Rightarrow> (error + ExtractedPODData list) \<times> world" where
  "extractPODDataFromPDF e documentId pdfBuffer db w =
     (let startTime = clock w;
          extractionId = randomUUID e (uuidCount w);
          w1 = w\<lparr>uuidCount := Suc (uuidCount w)\<rparr>
      in case updateDocumentStatus e documentId PROCESSING (Some extractionId) (Some db) w1 of
           (Inl err, w2) \<Rightarrow> failRun e documentId extractionId db err w2
         | (Inr _, w2) \<Rightarrow>
             (case pdf e pdfBuffer of
                Inl err \<Rightarrow> failRun e documentId extractionId db err (parsed e pdfBuffer w2)
              | Inr numPages \<Rightarrow>
                  (case pagesLoop e pdfBuffer documentId db startTime numPages 1 []
                          (parsed e pdfBuffer w2) of
                     (extractedPages, w3) \<Rightarrow>
                       (case updateDocumentStatus e documentId COMPLETED (Some extractionId)
                               (Some db) w3 of
                          (Inl err, w4) \<Rightarrow> failRun e documentId extractionId db err w4
                        | (Inr _, w4) \<Rightarrow> (Inr extractedPages, w4)))))"

section \<open>The read paths and the tRPC upload (routers/document.ts)\<close>

text \<open>
  A procedure validates its input against its zod schema before its body runs, and
  throws a validation error when the input does not conform. \<open>getDocument\<close> and
  \<open>getExtractionStatus\<close> take \<open>{ documentId: z.string().uuid() }\<close>.
\<close>

definition getDocument :: "env \<Rightarrow> string \<Rightarrow> world \<Rightarrow> error + uploadDocumentsRow" where
  "getDocument e documentId w =
     (if \<not> isUuid e documentId then Inl ZodError
      else case find (\<lambda>r. doc_documentId r = documentId) (uploadDocuments w) of
             None \<Rightarrow> Inl (Error ''Document not found'')
           | Some document \<Rightarrow> Inr document)"

record extractionStatusView =
  view_documentId :: uuid
  view_status :: DocumentExtactionStatusEnumType
  view_extractionId :: "uuid option"

definition getExtractionStatus :: "env \<Rightarrow> string \<Rightarrow> world \<Rightarrow> error + extractionStatusView" where
  "getExtractionStatus e documentId w =
     (if \<not> isUuid e documentId then Inl ZodError
      else case find (\<lambda>r. doc_documentId r = documentId) (uploadDocuments w) of
             None \<Rightarrow> Inl (Error ''Document not found'')
           | Some document \<Rightarrow>
               Inr \<lparr>view_documentId = doc_documentId document,
                    view_status = doc_extractionStatus document,
                    view_extractionId = doc_extractionId document\<rparr>)"

text \<open>
  \<open>getExtractedData\<close>: the rows of the document, \<open>orderBy asc(pageNumber)\<close>, for a
  document id that passed the schema.
\<close>

definition getExtractedData :: "uuid \<Rightarrow> world \<Rightarrow> extractedPageDataRow list" where
  "getExtractedData documentId w =
     sort_key row_pageNumber
       (filter (\<lambda>r. row_documentId r = documentId) (extractedPageData w))"

text \<open>
  \<open>listDocuments\<close>: the input object is optional, and so is each of its fields. The
  schema wants \<open>limit\<close> a positive integer of at most 100 and \<open>offset\<close> a non-negative
  integer, and throws otherwise; an absent field takes its default.
\<close>

record listDocumentsInput =
  limit :: "int option"
  offset :: "int option"

definition listDocumentsSchema :: "listDocumentsInput \<Rightarrow> bool" where
  "listDocumentsSchema i =
     ((case limit i of None \<Rightarrow> True | Some l \<Rightarrow> 0 < l \<and> l \<le> 100) \<and>
      (case offset i of None \<Rightarrow> True | Some off \<Rightarrow> 0 \<le> off))"

definition orderByCreatedAtDesc :: "uploadDocumentsRow list \<Rightarrow> uploadDocumentsRow list" where
  "orderByCreatedAtDesc docs = sort_key (\<lambda>r. - doc_createdAt r) docs"

definition findMany :: "int \<Rightarrow> int \<Rightarrow> world \<Rightarrow> uploadDocumentsRow list" where
  "findMany lim off w =
     take (nat lim) (drop (nat off) (orderByCreatedAtDesc (uploadDocuments w)))"

definition listDocuments :: "listDocumentsInput option \<Rightarrow> world \<Rightarrow> error + uploadDocumentsRow list" where
  "listDocuments input w =
     (case input of
        None \<Rightarrow> Inr (findMany 20 0 w)
      | Some i \<Rightarrow>
          if listDocumentsSchema i
          then Inr (findMany (case limit i of None \<Rightarrow> 20 | Some l \<Rightarrow> l)
                             (case offset i of None \<Rightarrow> 0 | Some off \<Rightarrow> off) w)
          else Inl ZodError)"

text \<open>
  \<open>db.insert(uploadDocuments).values(...).returning()\<close>: the store draws the primary
  key and stamps the creation time; a key that is already taken violates the primary key.
\<close>

record uploadDocumentsValues =
  val_userId :: uuid
  val_instructionNumber :: string
  val_documentName :: string
  val_fileUrl :: string
  val_fileSizeInBytes :: int
  val_companyId :: "uuid option"
  val_branchId :: "uuid option"
  val_extractionStatus :: DocumentExtactionStatusEnumType

definition insertUploadDocument ::
    "env \<Rightarrow> uploadDocumentsValues \<Rightarrow> world \<Rightarrow> (error + uploadDocumentsRow) \<times> world" where
  "insertUploadDocument e v w =
     (let document =
            \<lparr>doc_documentId = defaultRandom e (keyCount w),
             doc_userId = val_userId v,
             doc_instructionNumber = val_instructionNumber v,
             doc_documentName = val_documentName v,
             doc_fileUrl = val_fileUrl v,
             doc_fileSizeInBytes = val_fileSizeInBytes v,
             doc_companyId = val_companyId v,
             doc_branchId = val_branchId v,
             doc_extractionStatus = val_extractionStatus v,
             doc_extractionId = None,
             doc_createdAt = clock w\<rparr>;
          w1 = (statementDone e w)\<lparr>keyCount := Suc (keyCount w)\<rparr>
      in if storeRejects e (writes w) \<or>
            (\<exists>r \<in> set (uploadDocuments w). doc_documentId r = doc_documentId document)
         then (Inl StoreError, w1)
         else (Inr document, w1\<lparr>uploadDocuments := uploadDocuments w @ [document]\<rparr>))"

text \<open>
  Work a handler starts and does not await: the call
  \<open>extractPODDataFromPDF(id, buffer, db).catch(...)\<close>. Running the job later is the run
  itself, its error swallowed by the \<open>catch\<close>.
\<close>

datatype job = ExtractJob uuid Buffer

definition runJob :: "env \<Rightarrow> job \<Rightarrow> world \<Rightarrow> world" where
  "runJob e j w = (case j of ExtractJob documentId pdfBuffer \<Rightarrow>
     snd (extractPODDataFromPDF e documentId pdfBuffer DB w))"

text \<open>
  The tRPC mutation \<open>upload\<close>: it takes metadata only (no file content), inserts the
  document row and returns its id and status; the call of the extraction service is
  commented out, so the mutation starts no job.
\<close>

record uploadInput =
  in_userId :: string
  in_instructionNumber :: string
  in_documentName :: string
  in_fileUrl :: string
  in_fileSizeInBytes :: int
  in_companyId :: "string option"
  in_branchId :: "string option"

text \<open>
  The input schema of \<open>upload\<close>: \<open>userId\<close> a UUID, \<open>instructionNumber\<close> and
  \<open>documentName\<close> of at least one character, \<open>fileUrl\<close> a URL, \<open>fileSizeInBytes\<close> a
  positive integer, \<open>companyId\<close> and \<open>branchId\<close> UUIDs when present.
\<close>

definition uploadSchema :: "env \<Rightarrow> uploadInput \<Rightarrow> bool" where
  "uploadSchema e i =
     (isUuid e (in_userId i) \<and>
      1 \<le> length (in_instructionNumber i) \<and>
      1 \<le> length (in_documentName i) \<and>
      isUrl e (in_fileUrl i) \<and>
      0 < in_fileSizeInBytes i \<and>
      (case in_companyId i of None \<Rightarrow> True | Some c \<Rightarrow> isUuid e c) \<and>
      (case in_branchId i of None \<Rightarrow> True | Some b \<Rightarrow> isUuid e b))"

record uploadOutput =
  out_documentId :: uuid
  out_extractionStatus :: DocumentExtactionStatusEnumType

definition upload :: "env \<Rightarrow> uploadInput \<Rightarrow> world \<Rightarrow> (error + uploadOutput) \<times> job list \<times> world" where
  "upload e i w =
     (if \<not> uploadSchema e i then (Inl ZodError, [], w)
      else case insertUploadDocument e
                  \<lparr>val_userId = in_userId i,
                   val_instructionNumber = in_instructionNumber i,
                   val_documentName = in_documentName i,
                   val_fileUrl = in_fileUrl i,
                   val_fileSizeInBytes = in_fileSizeInBytes i,
                   val_companyId = in_companyId i,
                   val_branchId = in_branchId i,
                   val_extractionStatus = IDEAL\<rparr> w of
             (Inl err, w') \<Rightarrow> (Inl err, [], w')
           | (Inr document, w') \<Rightarrow>
               (Inr \<lparr>out_documentId = doc_documentId document,
                     out_extractionStatus = doc_extractionStatus document\<rparr>, [], w'))"

section \<open>The HTTP upload endpoint (POST /api/upload-document of the server)\<close>

text \<open>
  The multipart request after parsing: the uploaded file, if any, and the text fields of
  the body. The upload middleware refuses a file that is not a PDF, and a file whose size
  reaches the limit of 10 MB (10485760 bytes: the parser stops and reports the limit as
  soon as that many bytes have been read), before the handler runs; its error goes to the
  framework's error handler.
\<close>

record multerFile =
  originalname :: string
  mimetype :: string
  size :: nat
  buffer :: Buffer

record uploadRequest =
  req_file :: "multerFile option"
  body_userId :: "string option"
  body_instructionNumber :: "string option"
  body_companyId :: "string option"
  body_branchId :: "string option"

datatype response =
  Json200 uuid string
| Status400 string
| Status500 string error
| MiddlewareError string

text \<open>JavaScript's \<open>!s\<close> and \<open>s || null\<close> on an optional string.\<close>

definition falsy :: "string option \<Rightarrow> bool" where
  "falsy s = (case s of None \<Rightarrow> True | Some x \<Rightarrow> x = [])"

definition orNull :: "string option \<Rightarrow> string option" where
  "orNull s = (if falsy s then None else s)"

definition uploadDocument :: "env \<Rightarrow> uploadRequest \<Rightarrow> world \<Rightarrow> response \<times> job list \<times> world" where
  "uploadDocument e req w =
     (case req_file req of
        None \<Rightarrow> (Status400 ''No file uploaded'', [], w)
      | Some file \<Rightarrow>
          if mimetype file \<noteq> ''application/pdf''
          then (MiddlewareError ''Only PDF files are allowed'', [], w)
          else if 10 * 1024 * 1024 \<le> size file
          then (MiddlewareError ''File too large'', [], w)
          else if falsy (body_userId req) \<or> falsy (body_instructionNumber req)
          then (Status400 ''Missing required fields: userId and instructionNumber'', [], w)
          else (case insertUploadDocument e
                       \<lparr>val_userId = the (body_userId req),
                        val_instructionNumber = the (body_instructionNumber req),
                        val_documentName = originalname file,
                        val_fileUrl = ''memory://'' @ originalname file,
                        val_fileSizeInBytes = int (size file),
                        val_companyId = orNull (body_companyId req),
                        val_branchId = orNull (body_branchId req),
                        val_extractionStatus = IDEAL\<rparr> w of
                  (Inl err, w') \<Rightarrow> (Status500 ''Upload failed'' err, [], w')
                | (Inr document, w') \<Rightarrow>
                    (Json200 (doc_documentId document)
                       ''Document uploaded successfully. Processing started.'',
                     [ExtractJob (doc_documentId document) (buffer file)], w')))"

section \<open>Auxiliary definitions for the statements\<close>

text \<open>The state after an accepted status update.\<close>

definition statusWritten ::
    "env \<Rightarrow> uuid \<Rightarrow> DocumentExtactionStatusEnumType \<Rightarrow> uuid \<Rightarrow> world \<Rightarrow> world" where
  "statusWritten e d s eid w =
     (statementDone e w)
       \<lparr>uploadDocuments := map (setStatus d s (Some eid)) (uploadDocuments w),
        journal := journal w @ [StatusSet d s (Some eid)]\<rparr>"

text \<open>
  The state in which the page loop of the run started in \<open>w\<close> is entered: the
  extraction id is drawn, the PROCESSING update is accepted, the PDF is parsed.
\<close>

definition started :: "env \<Rightarrow> Buffer \<Rightarrow> uuid \<Rightarrow> world \<Rightarrow> world" where
  "started e buf d w =
     parsed e buf
       (statusWritten e d PROCESSING (randomUUID e (uuidCount w))
          (w\<lparr>uuidCount := Suc (uuidCount w)\<rparr>))"

text \<open>
  The state in which the extraction of page \<open>p\<close> starts in that run: the state the page
  loop has reached after pages 1 to \<open>p - 1\<close>.
\<close>

definition pageEntry :: "env \<Rightarrow> Buffer \<Rightarrow> uuid \<Rightarrow> DB \<Rightarrow> world \<Rightarrow> nat \<Rightarrow> world" where
  "pageEntry e buf d db w p =
     snd (pagesLoop e buf d db (clock w) (p - 1) 1 [] (started e buf d w))"



text \<open>
  What one page contributes when the store accepts every statement: the record pushed
  to the returned array, the row inserted, and the usage row inserted.
\<close>

definition expectedPage :: "env \<Rightarrow> Buffer \<Rightarrow> nat \<Rightarrow> ExtractedPODData" where
  "expectedPage e buf p =
     (case fst (generateObject e buf p) of
        Inl err \<Rightarrow> placeholder p
      | Inr res \<Rightarrow> pageDataOf p (result_object res))"

definition expectedRows :: "env \<Rightarrow> Buffer \<Rightarrow> uuid \<Rightarrow> nat \<Rightarrow> extractedPageDataRow list" where
  "expectedRows e buf d p =
     (case fst (generateObject e buf p) of
        Inl err \<Rightarrow> []
      | Inr res \<Rightarrow> [pageValues d (pageDataOf p (result_object res))])"

text \<open>
  The usage rows one page extraction adds, started in state \<open>W\<close> with the given
  \<open>startTime\<close>: one row when the model call reports usage and the store accepts the page
  insert and the usage insert, none otherwise. \<open>Date.now()\<close> is read once the page insert
  has settled.
\<close>

definition pageUsage ::
    "env \<Rightarrow> Buffer \<Rightarrow> uuid \<Rightarrow> int \<Rightarrow> nat \<Rightarrow> world \<Rightarrow> documentTokenUsageRow list" where
  "pageUsage e buf d startTime p W =
     (case fst (generateObject e buf p) of
        Inl err \<Rightarrow> []
      | Inr res \<Rightarrow>
          (case result_usage res of
             None \<Rightarrow> []
           | Some u \<Rightarrow>
               if storeRejects e (writes W) \<or>
                  (\<exists>r \<in> set (extractedPageData W). row_documentId r = d \<and> row_pageNumber r = p) \<or>
                  storeRejects e (Suc (writes W))
               then []
               else [\<lparr>tu_documentId = d,
                      tu_requestId = randomUUID e (uuidCount W),
                      tu_inputTokens = orZero (promptTokens u),
                      tu_toolUsePromptTokens = 0,
                      tu_cachedContentTokens = 0,
                      tu_candidatesTokens = orZero (completionTokens u),
                      tu_thoughtsTokens = 0,
                      tu_outputTokens = orZero (completionTokens u),
                      tu_totalTokens = orZero (usageTotalTokens u),
                      tu_durationMs =
                        clock W + int (snd (generateObject e buf p)) +
                        int (storeTime e (writes W)) - startTime\<rparr>]))"

section \<open>Concrete scenarios\<close>

text \<open>
  The format checks of the scenarios: a UUID is 8-4-4-4-12 hexadecimal digits, a URL
  starts with \<open>https://\<close>.
\<close>

definition hexDigit :: "char \<Rightarrow> bool" where
  "hexDigit c = (c \<in> set ''0123456789abcdefABCDEF'')"

definition uuidShape :: "string \<Rightarrow> bool" where
  "uuidShape s =
     (map (\<lambda>c. if c = CHR ''-'' then CHR ''-'' else if hexDigit c then CHR ''h'' else CHR ''?'') s =
      ''hhhhhhhh-hhhh-hhhh-hhhh-hhhhhhhhhhhh'')"

definition urlShape :: "string \<Rightarrow> bool" where
  "urlShape s = (take 8 s = ''https://'' \<and> 8 < length s)"

text \<open>
  The identifiers of the scenarios: a stored document, its owner, a document that is not
  stored, and the UUIDs the process and the store draw.
\<close>

definition documentOne :: uuid where
  "documentOne = ''d0c00001-0000-4000-8000-000000000001''"

definition userOne :: uuid where
  "userOne = ''a5e00001-0000-4000-8000-000000000001''"

definition missingDocument :: uuid where
  "missingDocument = ''d0c00404-0000-4000-8000-000000000404''"

definition sampleUUID :: "nat \<Rightarrow> uuid" where
  "sampleUUID n = ''e0000000-0000-4000-8000-00000000000'' @ [''0123456789abcdef'' ! (n mod 16)]"

definition sampleKey :: "nat \<Rightarrow> uuid" where
  "sampleKey n = ''d0c00000-0000-4000-8000-00000000000'' @ [''0123456789abcdef'' ! (n mod 16)]"

text \<open>A store holding one freshly uploaded document.\<close>

definition sampleDocument :: uploadDocumentsRow where
  "sampleDocument =
     \<lparr>doc_documentId = documentOne, doc_userId = userOne,
      doc_instructionNumber = ''INS-2024-001'', doc_documentName = ''pod.pdf'',
      doc_fileUrl = ''memory://pod.pdf'', doc_fileSizeInBytes = 2048,
      doc_companyId = None, doc_branchId = None, doc_extractionStatus = IDEAL,
      doc_extractionId = None, doc_createdAt = 1000\<rparr>"

definition sampleWorld :: world where
  "sampleWorld =
     \<lparr>uploadDocuments = [sampleDocument], extractedPageData = [], documentTokenUsage = [],
      clock = 1000, uuidCount = 0, keyCount = 1, writes = 0, journal = []\<rparr>"

definition stubObject :: ExtractedPOD where
  "stubObject =
     \<lparr>obj_containerNumbers = [Some ''ABCD1234567''], obj_containerSizes = [Some ''40ft''],
      obj_fullEmptyStatuses = [Some ''FULL''], obj_pageDate = None,
      obj_instructionNumber = None, obj_vehicleNumber = None, obj_collectedFrom = None,
      obj_deliveredTo = None, obj_unsureFields = []\<rparr>"

text \<open>
  A two-page PDF whose model call succeeds on page 1 and throws on page 2. In the
  scenarios the store accepts every statement, and only the model calls take time.
\<close>

definition throwingStub :: env where
  "throwingStub =
     \<lparr>randomUUID = sampleUUID,
      defaultRandom = sampleKey,
      pdf = (\<lambda>buf. Inr 2),
      pdfTime = (\<lambda>buf. 0),
      generateObject = (\<lambda>buf p.
         if p = 2 then (Inl (Error ''model call failed''), 7)
         else (Inr \<lparr>result_object = stubObject, result_usage = None\<rparr>, 5)),
      storeRejects = (\<lambda>n. False),
      storeTime = (\<lambda>n. 0),
      isUuid = uuidShape,
      isUrl = urlShape\<rparr>"

text \<open>A one-page PDF whose only model call throws.\<close>

definition failingStub :: env where
  "failingStub =
     \<lparr>randomUUID = sampleUUID,
      defaultRandom = sampleKey,
      pdf = (\<lambda>buf. Inr 1),
      pdfTime = (\<lambda>buf. 0),
      generateObject = (\<lambda>buf p. (Inl (Error ''model call failed''), 7)),
      storeRejects = (\<lambda>n. False),
      storeTime = (\<lambda>n. 0),
      isUuid = uuidShape,
      isUrl = urlShape\<rparr>"

text \<open>
  A three-page PDF whose calls take 40, 50 and 60 ms and report total tokens 100, 150
  and 200; the second call reports no completion tokens.
\<close>

definition usageStub :: env where
  "usageStub =
     \<lparr>randomUUID = sampleUUID,
      defaultRandom = sampleKey,
      pdf = (\<lambda>buf. Inr 3),
      pdfTime = (\<lambda>buf. 0),
      generateObject = (\<lambda>buf p.
         if p = 1 then
           (Inr \<lparr>result_object = stubObject,
                 result_usage = Some \<lparr>promptTokens = Some 80, completionTokens = Some 20,
                                       usageTotalTokens = Some 100\<rparr>\<rparr>, 40)
         else if p = 2 then
           (Inr \<lparr>result_object = stubObject,
                 result_usage = Some \<lparr>promptTokens = Some 150, completionTokens = None,
                                       usageTotalTokens = Some 150\<rparr>\<rparr>, 50)
         else
           (Inr \<lparr>result_object = stubObject,
                 result_usage = Some \<lparr>promptTokens = Some 170, completionTokens = Some 30,
                                       usageTotalTokens = Some 200\<rparr>\<rparr>, 60)),
      storeRejects = (\<lambda>n. False),
      storeTime = (\<lambda>n. 0),
      isUuid = uuidShape,
      isUrl = urlShape\<rparr>"

text \<open>An upload of a second document, through the tRPC mutation and through the endpoint.\<close>

definition sampleUploadInput :: uploadInput where
  "sampleUploadInput =
     \<lparr>in_userId = userOne, in_instructionNumber = ''INS-2024-002'',
      in_documentName = ''second.pdf'', in_fileUrl = ''https://files.example/second.pdf'',
      in_fileSizeInBytes = 4096, in_companyId = None, in_branchId = None\<rparr>"

definition sampleUploadRequest :: uploadRequest where
  "sampleUploadRequest =
     \<lparr>req_file = Some \<lparr>originalname = ''second.pdf'', mimetype = ''application/pdf'',
                        size = 4096, buffer = ''%PDF''\<rparr>,
      body_userId = Some userOne, body_instructionNumber = Some ''INS-2024-002'',
      body_companyId = None, body_branchId = Some ''''\<rparr>"

text \<open>A page whose arrays hold a \<open>null\<close> in their second position.\<close>

definition nullsPage :: ExtractedPODData where
  "nullsPage =
     \<lparr>pageNumber = 1, containerNumbers = [Some ''A1'', None],
      containerSizes = [Some ''20ft'', None], fullEmptyStatuses = [Some ''FULL'', None],
      pageDate = None, instructionNumber = None, vehicleNumber = None, collectedFrom = None,
      deliveredTo = None, unsureFields = [''containerNumbers'']\<rparr>"

text \<open>A store of five documents created at five different times.\<close>

definition docCreatedAt :: "uuid \<Rightarrow> int \<Rightarrow> uploadDocumentsRow" where
  "docCreatedAt documentId t = sampleDocument\<lparr>doc_documentId := documentId, doc_createdAt := t\<rparr>"

definition fiveDocuments :: world where
  "fiveDocuments =
     sampleWorld\<lparr>uploadDocuments :=
       [docCreatedAt (sampleKey 1) 10, docCreatedAt (sampleKey 2) 50, docCreatedAt (sampleKey 3) 30,
        docCreatedAt (sampleKey 4) 20, docCreatedAt (sampleKey 5) 40]\<rparr>"

section \<open>Effects of the service functions\<close>

lemma updateDocumentStatus_Some:
  "updateDocumentStatus e d st (Some eid) (Some db) w =
     (if storeRejects e (writes w) then (Inl StoreError, statementDone e w)
      else (Inr (), statusWritten e d st eid w))"
  by (simp add: updateDocumentStatus_def storeWrite_def statusWritten_def statementDone_def)

lemma statementDone_frame [simp]:
  "extractedPageData (statementDone e w) = extractedPageData w"
  "documentTokenUsage (statementDone e w) = documentTokenUsage w"
  "clock (statementDone e w) = clock w + int (storeTime e (writes w))"
  "uuidCount (statementDone e w) = uuidCount w"
  "keyCount (statementDone e w) = keyCount w"
  "writes (statementDone e w) = Suc (writes w)"
  "journal (statementDone e w) = journal w"
  "uploadDocuments (statementDone e w) = uploadDocuments w"
  by (simp_all add: statementDone_def)

lemma statusWritten_frame [simp]:
  "extractedPageData (statusWritten e d st eid w) = extractedPageData w"
  "documentTokenUsage (statusWritten e d st eid w) = documentTokenUsage w"
  "clock (statusWritten e d st eid w) = clock w + int (storeTime e (writes w))"
  "uuidCount (statusWritten e d st eid w) = uuidCount w"
  "keyCount (statusWritten e d st eid w) = keyCount w"
  "writes (statusWritten e d st eid w) = Suc (writes w)"
  "journal (statusWritten e d st eid w) = journal w @ [StatusSet d st (Some eid)]"
  "uploadDocuments (statusWritten e d st eid w) = map (setStatus d st (Some eid)) (uploadDocuments w)"
  by (simp_all add: statusWritten_def)

lemma parsed_frame [simp]:
  "extractedPageData (parsed e buf w) = extractedPageData w"
  "documentTokenUsage (parsed e buf w) = documentTokenUsage w"
  "clock (parsed e buf w) = clock w + int (pdfTime e buf)"
  "uuidCount (parsed e buf w) = uuidCount w"
  "keyCount (parsed e buf w) = keyCount w"
  "writes (parsed e buf w) = writes w"
  "journal (parsed e buf w) = journal w"
  "uploadDocuments (parsed e buf w) = uploadDocuments w"
  by (simp_all add: parsed_def)

lemma started_frame [simp]:
  "extractedPageData (started e buf d w) = extractedPageData w"
  "documentTokenUsage (started e buf d w) = documentTokenUsage w"
  "uuidCount (started e buf d w) = Suc (uuidCount w)"
  "keyCount (started e buf d w) = keyCount w"
  "writes (started e buf d w) = Suc (writes w)"
  "journal (started e buf d w) =
     journal w @ [StatusSet d PROCESSING (Some (randomUUID e (uuidCount w)))]"
  "uploadDocuments (started e buf d w) =
     map (setStatus d PROCESSING (Some (randomUUID e (uuidCount w)))) (uploadDocuments w)"
  by (simp_all add: started_def)

lemma failRun_unfold:
  "failRun e d eid db err w =
     (if storeRejects e (writes w) then (Inl StoreError, statementDone e w)
      else (Inl err, statusWritten e d FAILED eid w))"
  by (simp add: failRun_def updateDocumentStatus_Some)

lemma run_unfold:
  "extractPODDataFromPDF e d buf db w =
     (let eid = randomUUID e (uuidCount w)
      in if storeRejects e (writes w)
         then failRun e d eid db StoreError (statementDone e (w\<lparr>uuidCount := Suc (uuidCount w)\<rparr>))
         else (case pdf e buf of
                 Inl err \<Rightarrow> failRun e d eid db err (started e buf d w)
               | Inr N \<Rightarrow>
                   (let lp = pagesLoop e buf d db (clock w) N 1 [] (started e buf d w)
                    in if storeRejects e (writes (snd lp))
                       then failRun e d eid db StoreError (statementDone e (snd lp))
                       else (Inr (fst lp), statusWritten e d COMPLETED eid (snd lp)))))"
  by (simp add: extractPODDataFromPDF_def Let_def updateDocumentStatus_Some started_def
           split: sum.splits prod.splits)

lemmas page_defs =
  extractPageData_def Let_def saveExtractedPageData_def saveTokenUsage_def storeWrite_def

lemma extractPageData_frame:
  assumes "extractPageData e buf p d db st w = (r, w')"
  shows "uploadDocuments w' = uploadDocuments w \<and> journal w' = journal w @ [ModelCalled d p] \<and>
         uuidCount w' = Suc (uuidCount w) \<and> keyCount w' = keyCount w"
  using assms
  by (auto simp: page_defs split: sum.splits prod.splits option.splits if_splits)

lemma extractPageData_throws:
  assumes "extractPageData e buf p d db st w = (r, w')" "fst (generateObject e buf p) = Inl err"
  shows "r = Inl err \<and> extractedPageData w' = extractedPageData w \<and>
         documentTokenUsage w' = documentTokenUsage w"
  using assms
  by (auto simp: page_defs split: sum.splits prod.splits option.splits if_splits)

lemma extractPageData_rows:
  assumes "extractPageData e buf p d db st w = (r, w')"
  shows "extractedPageData w' = extractedPageData w \<or>
         (\<exists>res. fst (generateObject e buf p) = Inr res \<and>
            extractedPageData w' =
              extractedPageData w @ [pageValues d (pageDataOf p (result_object res))])"
  using assms
  by (auto simp: page_defs split: sum.splits prod.splits option.splits if_splits)

lemma extractPageData_returns:
  assumes "extractPageData e buf p d db st w = (Inr pd, w')"
  shows "\<exists>res. fst (generateObject e buf p) = Inr res \<and> pd = pageDataOf p (result_object res) \<and>
            extractedPageData w' = extractedPageData w @ [pageValues d pd]"
  using assms
  by (auto simp: page_defs split: sum.splits prod.splits option.splits if_splits)

text \<open>The usage rows one page extraction adds, in every state and for every store.\<close>

lemma extractPageData_usage:
  "documentTokenUsage (snd (extractPageData e buf p d db st w)) =
     documentTokenUsage w @ pageUsage e buf d st p w"
  by (auto simp: page_defs pageUsage_def pageDataOf_def usageValues_def tokenUsageOf_def
        orZero_def
      split: sum.splits prod.splits option.splits)

lemma pageUsage_rows:
  assumes "u \<in> set (pageUsage e buf d st p W)"
  shows "\<exists>res usage. tu_requestId u = randomUUID e (uuidCount W) \<and>
           fst (generateObject e buf p) = Inr res \<and> result_usage res = Some usage \<and>
           tu_outputTokens u = (case completionTokens usage of None \<Rightarrow> 0 | Some n \<Rightarrow> n) \<and>
           tu_candidatesTokens u = (case completionTokens usage of None \<Rightarrow> 0 | Some n \<Rightarrow> n) \<and>
           tu_toolUsePromptTokens u = 0 \<and> tu_cachedContentTokens u = 0 \<and>
           tu_thoughtsTokens u = 0"
proof (cases "fst (generateObject e buf p)")
  case (Inl err)
  with assms show ?thesis by (simp add: pageUsage_def)
next
  case (Inr res)
  show ?thesis
  proof (cases "result_usage res")
    case None
    with assms Inr show ?thesis by (simp add: pageUsage_def)
  next
    case (Some usage)
    with assms Inr have "tu_requestId u = randomUUID e (uuidCount W) \<and>
        tu_outputTokens u = orZero (completionTokens usage) \<and>
        tu_candidatesTokens u = orZero (completionTokens usage) \<and>
        tu_toolUsePromptTokens u = 0 \<and> tu_cachedContentTokens u = 0 \<and> tu_thoughtsTokens u = 0"
      by (simp add: pageUsage_def split: if_splits)
    then show ?thesis using Inr Some
      by (intro exI[of _ res] exI[of _ usage]) (simp add: orZero_def)
  qed
qed

subsection \<open>The page loop\<close>

lemma pagesLoop_step:
  assumes "pageNum \<le> N" "extractPageData e buf pageNum d db st w = (r, w1)"
  shows "pagesLoop e buf d db st N pageNum acc w =
           pagesLoop e buf d db st N (Suc pageNum)
             (acc @ [case r of Inr pageData \<Rightarrow> pageData | Inl pageError \<Rightarrow> placeholder pageNum]) w1"
  using assms by (subst pagesLoop.simps) (simp split: sum.splits)

lemma pagesLoop_done:
  assumes "\<not> pageNum \<le> N"
  shows "pagesLoop e buf d db st N pageNum acc w = (acc, w)"
  using assms by (subst pagesLoop.simps) simp

text \<open>Induction along the iterations of the loop, from any entry point up to \<open>N\<close>.\<close>

lemma pagesLoop_induct_rule [consumes 0, case_names finished page]:
  assumes "\<And>pageNum acc w. \<not> pageNum \<le> N \<Longrightarrow> P pageNum acc w"
    and "\<And>pageNum acc w r w1. pageNum \<le> N \<Longrightarrow>
           extractPageData e buf pageNum d db st w = (r, w1) \<Longrightarrow>
           P (Suc pageNum)
             (acc @ [case r of Inr pageData \<Rightarrow> pageData | Inl pageError \<Rightarrow> placeholder pageNum]) w1
           \<Longrightarrow> P pageNum acc w"
  shows "P pageNum acc w"
proof (induction "Suc N - pageNum" arbitrary: pageNum acc w)
  case (0 pageNum acc w)
  then show ?case using assms(1) by simp
next
  case (Suc k pageNum acc w)
  then have le: "pageNum \<le> N" by simp
  obtain r w1 where ep: "extractPageData e buf pageNum d db st w = (r, w1)"
    by (cases "extractPageData e buf pageNum d db st w")
  have "k = Suc N - Suc pageNum" using Suc(2) by simp
  then show ?case using assms(2)[OF le ep] Suc(1) by blast
qed

lemma pagesLoop_pages:
  "\<exists>rs. fst (pagesLoop e buf d db st N pageNum acc w) = acc @ rs \<and>
     list_all2 (\<lambda>p r. pageNumber r = p \<and>
        (\<forall>err. fst (generateObject e buf p) = Inl err \<longrightarrow> r = placeholder p))
       [pageNum..<Suc N] rs"
proof (induction pageNum acc w rule: pagesLoop_induct_rule[where e=e and buf=buf and d=d and db=db and st=st and N=N])
  case (finished pageNum acc w)
  then show ?case by (simp add: pagesLoop_done)
next
  case (page pageNum acc w r w1)
  from page(3) obtain rs where rs: "fst (pagesLoop e buf d db st N (Suc pageNum)
         (acc @ [case r of Inr pageData \<Rightarrow> pageData | Inl pageError \<Rightarrow> placeholder pageNum]) w1) =
        (acc @ [case r of Inr pageData \<Rightarrow> pageData | Inl pageError \<Rightarrow> placeholder pageNum]) @ rs"
     and all: "list_all2 (\<lambda>p r. pageNumber r = p \<and>
        (\<forall>err. fst (generateObject e buf p) = Inl err \<longrightarrow> r = placeholder p))
       [Suc pageNum..<Suc N] rs" by blast
  have hd: "pageNumber (case r of Inr pageData \<Rightarrow> pageData | Inl pageError \<Rightarrow> placeholder pageNum) = pageNum \<and>
        (\<forall>err. fst (generateObject e buf pageNum) = Inl err \<longrightarrow>
          (case r of Inr pageData \<Rightarrow> pageData | Inl pageError \<Rightarrow> placeholder pageNum) = placeholder pageNum)"
  proof (cases r)
    case (Inl err)
    then show ?thesis by (simp add: placeholder_def)
  next
    case (Inr pd)
    with extractPageData_returns[of e buf pageNum d db st w pd w1] page(2)
    show ?thesis by (auto simp: pageDataOf_def)
  qed
  have upt: "[pageNum..<Suc N] = pageNum # [Suc pageNum..<Suc N]"
    using page(1) by (simp add: upt_conv_Cons)
  show ?case
    unfolding pagesLoop_step[OF page(1) page(2)] rs upt
    using all hd by (intro exI[of _ "(case r of Inr pageData \<Rightarrow> pageData | Inl pageError \<Rightarrow> placeholder pageNum) # rs"]) simp
qed

lemma pagesLoop_rows:
  "\<exists>new. extractedPageData (snd (pagesLoop e buf d db st N pageNum acc w)) = extractedPageData w @ new \<and>
     sorted_wrt (<) (map row_pageNumber new) \<and>
     (\<forall>r \<in> set new. pageNum \<le> row_pageNumber r \<and> row_pageNumber r \<le> N \<and> row_documentId r = d \<and>
        (\<exists>res. fst (generateObject e buf (row_pageNumber r)) = Inr res \<and>
           r = pageValues d (pageDataOf (row_pageNumber r) (result_object res))))"
proof (induction pageNum acc w rule: pagesLoop_induct_rule[where e=e and buf=buf and d=d and db=db and st=st and N=N])
  case (finished pageNum acc w)
  then show ?case by (simp add: pagesLoop_done)
next
  case (page pageNum acc w r w1)
  let ?ok = "\<lambda>lo r. lo \<le> row_pageNumber r \<and> row_pageNumber r \<le> N \<and> row_documentId r = d \<and>
        (\<exists>res. fst (generateObject e buf (row_pageNumber r)) = Inr res \<and>
           r = pageValues d (pageDataOf (row_pageNumber r) (result_object res)))"
  from page(3) obtain new where new:
    "extractedPageData (snd (pagesLoop e buf d db st N pageNum acc w)) = extractedPageData w1 @ new"
    "sorted_wrt (<) (map row_pageNumber new)" "\<forall>r \<in> set new. ?ok (Suc pageNum) r"
    unfolding pagesLoop_step[OF page(1) page(2)] by blast
  from extractPageData_rows[OF page(2)]
  obtain first where first: "extractedPageData w1 = extractedPageData w @ first"
      "first = [] \<or> (\<exists>res. fst (generateObject e buf pageNum) = Inr res \<and>
           first = [pageValues d (pageDataOf pageNum (result_object res))])"
    by auto
  have f_ok: "\<forall>r \<in> set first. ?ok pageNum r \<and> row_pageNumber r = pageNum"
    using first(2) page(1) by (auto simp: pageValues_def pageDataOf_def)
  have "sorted_wrt (<) (map row_pageNumber (first @ new))"
    using new(2,3) f_ok first(2) by (auto simp: sorted_wrt_append)
  moreover have "\<forall>r \<in> set (first @ new). ?ok pageNum r"
    using new(3) f_ok by auto
  ultimately show ?case
    using new(1) first(1) by (intro exI[of _ "first @ new"]) simp
qed

lemma pagesLoop_frame:
  "uploadDocuments (snd (pagesLoop e buf d db st N pageNum acc w)) = uploadDocuments w \<and>
   keyCount (snd (pagesLoop e buf d db st N pageNum acc w)) = keyCount w \<and>
   uuidCount (snd (pagesLoop e buf d db st N pageNum acc w)) = uuidCount w + (Suc N - pageNum) \<and>
   journal (snd (pagesLoop e buf d db st N pageNum acc w)) =
     journal w @ map (ModelCalled d) [pageNum..<Suc N]"
proof (induction pageNum acc w rule: pagesLoop_induct_rule[where e=e and buf=buf and d=d and db=db and st=st and N=N])
  case (finished pageNum acc w)
  then show ?case by (simp add: pagesLoop_done)
next
  case (page pageNum acc w r w1)
  have upt: "[pageNum..<Suc N] = pageNum # [Suc pageNum..<Suc N]"
    using page(1) by (simp add: upt_conv_Cons)
  have draws: "Suc (uuidCount w) + (Suc N - Suc pageNum) = uuidCount w + (Suc N - pageNum)"
    using page(1) by simp
  show ?case
    unfolding pagesLoop_step[OF page(1) page(2)] upt
    using page(3) extractPageData_frame[OF page(2)] draws by simp
qed

text \<open>
  The loop up to \<open>N\<close> is the loop up to \<open>p - 1\<close> followed by the loop from \<open>p\<close>: the
  state after pages 1 to \<open>p - 1\<close> is the state in which page \<open>p\<close> starts.
\<close>

lemma pagesLoop_split:
  assumes "1 \<le> p" "p \<le> Suc N"
  shows "pageNum \<le> p \<longrightarrow>
     pagesLoop e buf d db st N pageNum acc w =
       pagesLoop e buf d db st N p
         (fst (pagesLoop e buf d db st (p - 1) pageNum acc w))
         (snd (pagesLoop e buf d db st (p - 1) pageNum acc w))"
proof (induction pageNum acc w rule: pagesLoop_induct_rule[where e=e and buf=buf and d=d and db=db and st=st and N="p - 1"])
  case (finished pageNum acc w)
  show ?case
  proof
    assume "pageNum \<le> p"
    with finished assms(1) have "pageNum = p" by simp
    then show "pagesLoop e buf d db st N pageNum acc w =
       pagesLoop e buf d db st N p
         (fst (pagesLoop e buf d db st (p - 1) pageNum acc w))
         (snd (pagesLoop e buf d db st (p - 1) pageNum acc w))"
      using finished by (simp add: pagesLoop_done)
  qed
next
  case (page pageNum acc w r w1)
  show ?case
  proof
    assume "pageNum \<le> p"
    from page(1) assms have le: "pageNum \<le> N" and next_le: "Suc pageNum \<le> p" by simp_all
    show "pagesLoop e buf d db st N pageNum acc w =
       pagesLoop e buf d db st N p
         (fst (pagesLoop e buf d db st (p - 1) pageNum acc w))
         (snd (pagesLoop e buf d db st (p - 1) pageNum acc w))"
      unfolding pagesLoop_step[OF le page(2)] pagesLoop_step[OF page(1) page(2)]
      using page(3) next_le by simp
  qed
qed

lemma pagesLoop_last:
  "snd (pagesLoop e buf d db st (Suc N) 1 [] w) =
     snd (extractPageData e buf (Suc N) d db st (snd (pagesLoop e buf d db st N 1 [] w)))"
proof -
  let ?lp = "pagesLoop e buf d db st N 1 [] w"
  obtain r w1 where ep: "extractPageData e buf (Suc N) d db st (snd ?lp) = (r, w1)"
    by (cases "extractPageData e buf (Suc N) d db st (snd ?lp)")
  have "pagesLoop e buf d db st (Suc N) 1 [] w =
      pagesLoop e buf d db st (Suc N) (Suc N) (fst ?lp) (snd ?lp)"
    using pagesLoop_split[of "Suc N" "Suc N" 1 e buf d db st "[]" w] by simp
  also have "\<dots> = pagesLoop e buf d db st (Suc N) (Suc (Suc N))
      (fst ?lp @ [case r of Inr pageData \<Rightarrow> pageData | Inl pageError \<Rightarrow> placeholder (Suc N)]) w1"
    by (rule pagesLoop_step[OF _ ep]) simp
  also have "\<dots> = (fst ?lp @ [case r of Inr pageData \<Rightarrow> pageData | Inl pageError \<Rightarrow> placeholder (Suc N)], w1)"
    by (rule pagesLoop_done) simp
  finally have "snd (pagesLoop e buf d db st (Suc N) 1 [] w) = w1" by (rule arg_cong[where f=snd, THEN trans]) simp
  then show ?thesis unfolding ep by simp
qed

lemma pagesLoop_usage:
  "documentTokenUsage (snd (pagesLoop e buf d db st N 1 [] w)) =
     documentTokenUsage w @
     concat (map (\<lambda>p. pageUsage e buf d st p (snd (pagesLoop e buf d db st (p - 1) 1 [] w)))
               [1..<Suc N])"
proof (induction N)
  case 0
  show ?case by (simp add: pagesLoop_done)
next
  case (Suc N)
  have upt: "[1..<Suc (Suc N)] = [1..<Suc N] @ [Suc N]" by simp
  show ?case
    unfolding pagesLoop_last extractPageData_usage Suc.IH upt
    by (simp del: upt_Suc)
qed

subsection \<open>The whole run\<close>

lemma failRun_tables:
  "extractedPageData (snd (failRun e d eid db err w)) = extractedPageData w"
  "documentTokenUsage (snd (failRun e d eid db err w)) = documentTokenUsage w"
  by (simp_all add: failRun_unfold)

text \<open>The equations that evaluate a run on a concrete environment and store.\<close>

lemmas eval_defs =
  extractPODDataFromPDF_def failRun_def updateDocumentStatus_def storeWrite_def statementDone_def
  parsed_def setStatus_def extractPageData_def saveExtractedPageData_def saveTokenUsage_def
  pageDataOf_def pageValues_def usageValues_def tokenUsageOf_def placeholder_def orZero_def
  pagesLoop.simps Let_def

lemmas scenario_defs =
  throwingStub_def failingStub_def usageStub_def sampleWorld_def sampleDocument_def
  stubObject_def documentOne_def userOne_def missingDocument_def sampleUUID_def sampleKey_def
  uuidShape_def hexDigit_def urlShape_def

lemma concat_singletons:
  assumes "\<And>x. x \<in> set xs \<Longrightarrow> map g (f x) = [x]"
  shows "map g (concat (map f xs)) = xs"
  using assms by (induction xs) simp_all

lemma concat_filter:
  assumes "\<And>x. x \<in> set xs \<Longrightarrow> map g (f x) = (if P x then [x] else [])"
  shows "map g (concat (map f xs)) = filter P xs"
  using assms by (induction xs) simp_all

lemma run_completed:
  assumes "extractPODDataFromPDF e d buf db w = (Inr pages, w')" "pdf e buf = Inr N"
  shows "pages = fst (pagesLoop e buf d db (clock w) N 1 [] (started e buf d w)) \<and>
         w' = statusWritten e d COMPLETED (randomUUID e (uuidCount w))
                (snd (pagesLoop e buf d db (clock w) N 1 [] (started e buf d w)))"
  using assms
  by (auto simp: run_unfold Let_def failRun_unfold split: if_splits)

text \<open>
  The usage rows of a run that got past the PROCESSING update and the parsing, whatever
  the store does afterwards.
\<close>

lemma run_usage:
  assumes "\<not> storeRejects e (writes w)" "pdf e buf = Inr N"
  shows "documentTokenUsage (snd (extractPODDataFromPDF e d buf db w)) =
     documentTokenUsage w @
     concat (map (\<lambda>p. pageUsage e buf d (clock w) p (pageEntry e buf d db w p)) [1..<Suc N])"
proof -
  have "documentTokenUsage (snd (extractPODDataFromPDF e d buf db w)) =
      documentTokenUsage (snd (pagesLoop e buf d db (clock w) N 1 [] (started e buf d w)))"
    using assms by (simp add: run_unfold Let_def failRun_unfold)
  then show ?thesis unfolding pagesLoop_usage pageEntry_def by simp
qed

lemma run_usage_stopped:
  assumes "storeRejects e (writes w) \<or> (\<exists>err. pdf e buf = Inl err)"
  shows "documentTokenUsage (snd (extractPODDataFromPDF e d buf db w)) = documentTokenUsage w"
  using assms by (auto simp: run_unfold Let_def failRun_unfold)

lemma pageEntry_frame:
  assumes "1 \<le> p"
  shows "uuidCount (pageEntry e buf d db w p) = uuidCount w + p"
    and "uploadDocuments (pageEntry e buf d db w p) =
           map (setStatus d PROCESSING (Some (randomUUID e (uuidCount w)))) (uploadDocuments w)"
    and "journal (pageEntry e buf d db w p) =
           journal w @ StatusSet d PROCESSING (Some (randomUUID e (uuidCount w))) #
             map (ModelCalled d) [1..<p]"
proof -
  note fr = pagesLoop_frame[of e buf d db "clock w" "p - 1" 1 "[]" "started e buf d w"]
  have p: "Suc (p - 1) = p" using assms by simp
  show "uuidCount (pageEntry e buf d db w p) = uuidCount w + p"
    using fr assms unfolding pageEntry_def by simp
  show "uploadDocuments (pageEntry e buf d db w p) =
           map (setStatus d PROCESSING (Some (randomUUID e (uuidCount w)))) (uploadDocuments w)"
    using fr unfolding pageEntry_def by simp
  show "journal (pageEntry e buf d db w p) =
           journal w @ StatusSet d PROCESSING (Some (randomUUID e (uuidCount w))) #
             map (ModelCalled d) [1..<p]"
    using fr unfolding pageEntry_def p by simp
qed

text \<open>The run continues from the state in which page \<open>p\<close> starts.\<close>

lemma run_from_pageEntry:
  assumes "1 \<le> p" "p \<le> Suc N"
  shows "pagesLoop e buf d db (clock w) N 1 [] (started e buf d w) =
     pagesLoop e buf d db (clock w) N p
       (fst (pagesLoop e buf d db (clock w) (p - 1) 1 [] (started e buf d w)))
       (pageEntry e buf d db w p)"
  using pagesLoop_split[OF assms, of 1 e buf d db "clock w" "[]" "started e buf d w"] assms(1)
  by (simp add: pageEntry_def)

subsection \<open>A run on a store that accepts every statement\<close>

lemma extractPageData_accepted:
  assumes "\<forall>i. \<not> storeRejects e i"
      and "\<forall>r \<in> set (extractedPageData w). \<not> (row_documentId r = d \<and> row_pageNumber r = p)"
      and "extractPageData e buf p d db st w = (r, w1)"
  shows "(case r of Inr pageData \<Rightarrow> pageData | Inl pageError \<Rightarrow> placeholder p) = expectedPage e buf p"
    and "extractedPageData w1 = extractedPageData w @ expectedRows e buf d p"
  using assms
  by (auto simp: page_defs expectedPage_def expectedRows_def pageDataOf_def
      split: sum.splits prod.splits option.splits if_splits)

lemma pagesLoop_accepted:
  assumes accept: "\<forall>i. \<not> storeRejects e i"
  shows "(\<forall>r \<in> set (extractedPageData w). row_documentId r = d \<longrightarrow> row_pageNumber r < pageNum) \<longrightarrow>
     fst (pagesLoop e buf d db st N pageNum acc w) = acc @ map (expectedPage e buf) [pageNum..<Suc N] \<and>
     extractedPageData (snd (pagesLoop e buf d db st N pageNum acc w)) =
       extractedPageData w @ concat (map (expectedRows e buf d) [pageNum..<Suc N])"
proof (induction pageNum acc w rule: pagesLoop_induct_rule[where e=e and buf=buf and d=d and db=db and st=st and N=N])
  case (finished pageNum acc w)
  then show ?case by (simp add: pagesLoop_done)
next
  case (page pageNum acc w r w1)
  show ?case
  proof
    assume fresh: "\<forall>r \<in> set (extractedPageData w). row_documentId r = d \<longrightarrow> row_pageNumber r < pageNum"
    then have fresh': "\<forall>r \<in> set (extractedPageData w). \<not> (row_documentId r = d \<and> row_pageNumber r = pageNum)"
      by auto
    note one = extractPageData_accepted[OF accept fresh' page(2)]
    have fresh1: "\<forall>r \<in> set (extractedPageData w1). row_documentId r = d \<longrightarrow> row_pageNumber r < Suc pageNum"
      using fresh one(2)
      by (auto simp: expectedRows_def pageValues_def pageDataOf_def less_Suc_eq split: sum.splits)
    have upt: "[pageNum..<Suc N] = pageNum # [Suc pageNum..<Suc N]"
      using page(1) by (simp add: upt_conv_Cons)
    from page(3) fresh1 have ih:
      "fst (pagesLoop e buf d db st N pageNum acc w) =
         (acc @ [case r of Inr pageData \<Rightarrow> pageData | Inl pageError \<Rightarrow> placeholder pageNum]) @
         map (expectedPage e buf) [Suc pageNum..<Suc N]"
      "extractedPageData (snd (pagesLoop e buf d db st N pageNum acc w)) =
         extractedPageData w1 @ concat (map (expectedRows e buf d) [Suc pageNum..<Suc N])"
      unfolding pagesLoop_step[OF page(1) page(2)] by simp_all
    show "fst (pagesLoop e buf d db st N pageNum acc w) = acc @ map (expectedPage e buf) [pageNum..<Suc N] \<and>
     extractedPageData (snd (pagesLoop e buf d db st N pageNum acc w)) =
       extractedPageData w @ concat (map (expectedRows e buf d) [pageNum..<Suc N])"
      unfolding ih unfolding upt using one by (simp del: upt_Suc)
  qed
qed

lemma find_setStatus:
  "find (\<lambda>r. doc_documentId r = d) (map (setStatus d st eid) docs) =
     map_option (setStatus d st eid) (find (\<lambda>r. doc_documentId r = d) docs)"
  by (induction docs) (auto simp: setStatus_def split: option.splits)

lemma find_document:
  "\<exists>r \<in> set docs. doc_documentId r = d \<Longrightarrow>
     \<exists>doc. find (\<lambda>r. doc_documentId r = d) docs = Some doc \<and> doc \<in> set docs \<and> doc_documentId doc = d"
  by (induction docs) auto

lemma find_id: "find (\<lambda>r. doc_documentId r = d) docs = Some doc \<Longrightarrow> doc_documentId doc = d"
  by (auto simp: find_Some_iff)

lemma setStatus_status:
  "doc_documentId r = d \<Longrightarrow> doc_extractionStatus (setStatus d st (Some eid) r) = st \<and>
     doc_extractionId (setStatus d st (Some eid) r) = Some eid \<and>
     doc_documentId (setStatus d st (Some eid) r) = d"
  by (simp add: setStatus_def)

text \<open>What the status read path gives after one or two accepted status updates.\<close>

lemma status_after_update:
  assumes "isUuid e d" "find (\<lambda>r. doc_documentId r = d) docs = Some doc"
      and "uploadDocuments w' = map (setStatus d st (Some eid)) docs"
  shows "getExtractionStatus e d w' =
           Inr \<lparr>view_documentId = d, view_status = st, view_extractionId = Some eid\<rparr>"
proof -
  have "doc_documentId doc = d" using assms(2) by (rule find_id)
  then have "doc_extractionStatus (setStatus d st (Some eid) doc) = st"
      "doc_extractionId (setStatus d st (Some eid) doc) = Some eid"
      "doc_documentId (setStatus d st (Some eid) doc) = d"
    by (simp_all add: setStatus_def)
  moreover have "find (\<lambda>r. doc_documentId r = d) (uploadDocuments w') =
      Some (setStatus d st (Some eid) doc)"
    unfolding assms(3) find_setStatus assms(2) by simp
  ultimately show ?thesis using assms(1) by (simp add: getExtractionStatus_def)
qed

lemma status_after_updates:
  assumes "isUuid e d" "find (\<lambda>r. doc_documentId r = d) docs = Some doc"
      and "uploadDocuments w' =
             map (setStatus d st (Some eid)) (map (setStatus d st' (Some eid')) docs)"
  shows "getExtractionStatus e d w' =
           Inr \<lparr>view_documentId = d, view_status = st, view_extractionId = Some eid\<rparr>"
proof (rule status_after_update[OF assms(1) _ assms(3)])
  show "find (\<lambda>r. doc_documentId r = d) (map (setStatus d st' (Some eid')) docs) =
      Some (setStatus d st' (Some eid') doc)"
    unfolding find_setStatus assms(2) by simp
qed

text \<open>A string that is not a UUID is refused by both read paths before any lookup.\<close>

lemma read_paths_validate:
  assumes "\<not> isUuid e documentId"
  shows "getDocument e documentId w = Inl ZodError"
    and "getExtractionStatus e documentId w = Inl ZodError"
  using assms by (simp_all add: getDocument_def getExtractionStatus_def)

lemma run_accepted:
  assumes accept: "\<forall>i. \<not> storeRejects e i"
      and fresh: "\<forall>r \<in> set (extractedPageData w). row_documentId r \<noteq> d"
      and parse: "pdf e buf = Inr N"
  shows "fst (extractPODDataFromPDF e d buf db w) = Inr (map (expectedPage e buf) [1..<Suc N])"
    and "extractedPageData (snd (extractPODDataFromPDF e d buf db w)) =
           extractedPageData w @ concat (map (expectedRows e buf d) [1..<Suc N])"
    and "uploadDocuments (snd (extractPODDataFromPDF e d buf db w)) =
           map (setStatus d COMPLETED (Some (randomUUID e (uuidCount w))))
             (map (setStatus d PROCESSING (Some (randomUUID e (uuidCount w)))) (uploadDocuments w))"
proof -
  let ?w2 = "started e buf d w"
  have run: "extractPODDataFromPDF e d buf db w =
      (Inr (fst (pagesLoop e buf d db (clock w) N 1 [] ?w2)),
       statusWritten e d COMPLETED (randomUUID e (uuidCount w))
         (snd (pagesLoop e buf d db (clock w) N 1 [] ?w2)))"
    using accept parse by (simp add: run_unfold Let_def)
  have fresh2: "\<forall>r \<in> set (extractedPageData ?w2). row_documentId r = d \<longrightarrow> row_pageNumber r < 1"
    using fresh by simp
  note loop = mp[OF pagesLoop_accepted[OF accept, where w="?w2" and d=d and pageNum=1 and buf=buf
        and db=db and st="clock w" and N=N and acc="[]"] fresh2]
  show "fst (extractPODDataFromPDF e d buf db w) = Inr (map (expectedPage e buf) [1..<Suc N])"
    using loop by (simp add: run del: upt_Suc)
  show "extractedPageData (snd (extractPODDataFromPDF e d buf db w)) =
           extractedPageData w @ concat (map (expectedRows e buf d) [1..<Suc N])"
    using loop by (simp add: run del: upt_Suc)
  show "uploadDocuments (snd (extractPODDataFromPDF e d buf db w)) =
           map (setStatus d COMPLETED (Some (randomUUID e (uuidCount w))))
             (map (setStatus d PROCESSING (Some (randomUUID e (uuidCount w)))) (uploadDocuments w))"
    using pagesLoop_frame[of e buf d db "clock w" N 1 "[]" ?w2] by (simp add: run)
qed

subsection \<open>The events of a run\<close>





section \<open>Effects of the upload and the listing\<close>

lemma find_appended:
  assumes "\<forall>r \<in> set docs. doc_documentId r \<noteq> doc_documentId document"
  shows "find (\<lambda>r. doc_documentId r = doc_documentId document) (docs @ [document]) = Some document"
  using assms by (induction docs) auto

lemma insertUploadDocument_accepted:
  assumes "\<not> storeRejects e (writes w)"
      and "\<forall>r \<in> set (uploadDocuments w). doc_documentId r \<noteq> defaultRandom e (keyCount w)"
  shows "\<exists>document w'. insertUploadDocument e v w = (Inr document, w') \<and>
           doc_documentId document = defaultRandom e (keyCount w) \<and>
           doc_extractionStatus document = val_extractionStatus v \<and>
           doc_extractionId document = None \<and>
           find (\<lambda>r. doc_documentId r = defaultRandom e (keyCount w)) (uploadDocuments w') = Some document"
proof -
  define document where "document =
            \<lparr>doc_documentId = defaultRandom e (keyCount w),
             doc_userId = val_userId v,
             doc_instructionNumber = val_instructionNumber v,
             doc_documentName = val_documentName v,
             doc_fileUrl = val_fileUrl v,
             doc_fileSizeInBytes = val_fileSizeInBytes v,
             doc_companyId = val_companyId v,
             doc_branchId = val_branchId v,
             doc_extractionStatus = val_extractionStatus v,
             doc_extractionId = None,
             doc_createdAt = clock w\<rparr>"
  have id: "doc_documentId document = defaultRandom e (keyCount w)" by (simp add: document_def)
  have ins: "insertUploadDocument e v w =
      (Inr document, (statementDone e w)\<lparr>keyCount := Suc (keyCount w),
                        uploadDocuments := uploadDocuments w @ [document]\<rparr>)"
    using assms by (simp add: insertUploadDocument_def Let_def document_def)
  have "find (\<lambda>r. doc_documentId r = doc_documentId document) (uploadDocuments w @ [document]) = Some document"
    by (rule find_appended) (use assms(2) id in simp)
  then show ?thesis unfolding ins using id by (simp add: document_def)
qed

lemmas upload_eval = upload_def uploadDocument_def uploadSchema_def insertUploadDocument_def
  falsy_def orNull_def Let_def getExtractionStatus_def

lemma ordered_facts:
  "set (orderByCreatedAtDesc docs) = set docs"
  "length (orderByCreatedAtDesc docs) = length docs"
  "sorted_wrt (\<lambda>a b. doc_createdAt b \<le> doc_createdAt a) (orderByCreatedAtDesc docs)"
proof -
  show "set (orderByCreatedAtDesc docs) = set docs" "length (orderByCreatedAtDesc docs) = length docs"
    by (simp_all add: orderByCreatedAtDesc_def)
  have "sorted (map (\<lambda>r. - doc_createdAt r) (orderByCreatedAtDesc docs))"
    by (simp add: orderByCreatedAtDesc_def)
  then show "sorted_wrt (\<lambda>a b. doc_createdAt b \<le> doc_createdAt a) (orderByCreatedAtDesc docs)"
    by (simp add: sorted_map)
qed

lemma findMany_result:
  assumes "l \<le> 100"
  shows "sorted_wrt (\<lambda>a b. doc_createdAt b \<le> doc_createdAt a) (findMany l off w) \<and>
         length (findMany l off w) \<le> 100 \<and>
         set (findMany l off w) \<subseteq> set (uploadDocuments w)"
proof -
  have "sorted_wrt (\<lambda>a b. doc_createdAt b \<le> doc_createdAt a) (findMany l off w)"
    unfolding findMany_def by (intro sorted_wrt_take sorted_wrt_drop ordered_facts)
  moreover have "length (findMany l off w) \<le> 100"
    unfolding findMany_def using assms by simp
  moreover have "set (findMany l off w) \<subseteq> set (uploadDocuments w)"
  proof
    fix x assume "x \<in> set (findMany l off w)"
    then have "x \<in> set (orderByCreatedAtDesc (uploadDocuments w))"
      unfolding findMany_def by (blast dest: in_set_takeD in_set_dropD)
    then show "x \<in> set (uploadDocuments w)" by (simp add: ordered_facts)
  qed
  ultimately show ?thesis by blast
qed

lemma listDocuments_result:
  assumes "listDocuments input w = Inr ds"
  shows "sorted_wrt (\<lambda>a b. doc_createdAt b \<le> doc_createdAt a) ds \<and> length ds \<le> 100 \<and>
         set ds \<subseteq> set (uploadDocuments w)"
proof -
  from assms have "\<exists>l off. ds = findMany l off w \<and> l \<le> 100"
  proof (cases input)
    case None
    with assms have "ds = findMany 20 0 w" by (simp add: listDocuments_def)
    then show ?thesis by (intro exI[of _ 20] exI[of _ 0]) simp
  next
    case (Some i)
    with assms have ok: "listDocumentsSchema i"
      and ds: "ds = findMany (case limit i of None \<Rightarrow> 20 | Some l \<Rightarrow> l)
                      (case offset i of None \<Rightarrow> 0 | Some off \<Rightarrow> off) w"
      by (auto simp: listDocuments_def split: if_splits)
    from ok have "(case limit i of None \<Rightarrow> 20 | Some l \<Rightarrow> l) \<le> 100"
      by (simp add: listDocumentsSchema_def split: option.splits)
    with ds show ?thesis by blast
  qed
  then show ?thesis using findMany_result by blast
qed

lemma strictly_descending:
  "sorted_wrt (\<lambda>a b. (f b :: int) \<le> f a) xs \<Longrightarrow> distinct (map f xs) \<Longrightarrow>
     sorted_wrt (\<lambda>a b. f b < f a) xs"
proof (induction xs)
  case Nil
  then show ?case by simp
next
  case (Cons x xs)
  have "f y < f x" if "y \<in> set xs" for y
  proof -
    from Cons.prems that have "f y \<le> f x" "f x \<noteq> f y" by auto
    then show ?thesis by simp
  qed
  with Cons show ?case by simp
qed

lemma ordered_distinct:
  assumes "distinct (map doc_createdAt docs)"
  shows "distinct (map doc_createdAt (orderByCreatedAtDesc docs))"
proof -
  from assms have "distinct docs" "inj_on doc_createdAt (set docs)"
    by (simp_all add: distinct_map)
  then show ?thesis by (simp add: distinct_map orderByCreatedAtDesc_def)
qed

lemma five_elements:
  "length xs = 5 \<Longrightarrow> \<exists>a b c d e. xs = [a, b, c, d, e]"
  by (auto simp: eval_nat_numeral length_Suc_conv)

section \<open>Page records of a run\<close>

text \<open>
  Claim C1, as the code has it. When a run completes (it returns its page list) on a PDF
  that parses to \<open>N\<close> pages, the returned list holds exactly \<open>N\<close> records, numbered
  1 to \<open>N\<close> in order. The Page Records the run persists for the document have distinct
  page numbers within 1..\<open>N\<close>, so there are at most \<open>N\<close> of them, and each is the row of
  a page whose model call succeeded, holding what the model returned. A page whose model
  call throws gets the placeholder in the returned list only: no row with its page number
  is persisted. When the store accepts every statement, the document had no page rows
  and every model call succeeds, the persisted rows are exactly those of pages 1 to \<open>N\<close>.
\<close>

theorem page_records_of_run:
  assumes "extractPODDataFromPDF e d buf db w = (Inr pages, w')" and "pdf e buf = Inr N"
  shows "map pageNumber pages = [1..<Suc N] \<and>
     (\<exists>new. extractedPageData w' = extractedPageData w @ new \<and>
        distinct (map row_pageNumber new) \<and> length new \<le> N \<and>
        (\<forall>r \<in> set new. row_documentId r = d \<and> 1 \<le> row_pageNumber r \<and> row_pageNumber r \<le> N \<and>
           (\<exists>res. fst (generateObject e buf (row_pageNumber r)) = Inr res \<and>
              r = pageValues d (pageDataOf (row_pageNumber r) (result_object res)))) \<and>
        (\<forall>p err. 1 \<le> p \<and> p \<le> N \<and> fst (generateObject e buf p) = Inl err \<longrightarrow>
           pages ! (p - 1) = placeholder p \<and> p \<notin> row_pageNumber ` set new) \<and>
        ((\<forall>i. \<not> storeRejects e i) \<and>
         (\<forall>r \<in> set (extractedPageData w). row_documentId r \<noteq> d) \<and>
         (\<forall>p. 1 \<le> p \<and> p \<le> N \<longrightarrow> (\<exists>res. fst (generateObject e buf p) = Inr res)) \<longrightarrow>
           map row_pageNumber new = [1..<Suc N]))"
proof -
  define w2 where "w2 = started e buf d w"
  from run_completed[OF assms]
  have pages: "pages = fst (pagesLoop e buf d db (clock w) N 1 [] w2)"
    and w': "extractedPageData w' = extractedPageData (snd (pagesLoop e buf d db (clock w) N 1 [] w2))"
    by (simp_all add: w2_def)
  from pagesLoop_pages[of e buf d db "clock w" N 1 "[]" w2]
  have all: "list_all2 (\<lambda>p r. pageNumber r = p \<and>
        (\<forall>err. fst (generateObject e buf p) = Inl err \<longrightarrow> r = placeholder p)) [1..<Suc N] pages"
    by (simp add: pages)
  have len: "length pages = N" using list_all2_lengthD[OF all] by (simp del: upt_Suc)
  have nth: "\<And>i. i < N \<Longrightarrow> pageNumber (pages ! i) = Suc i \<and>
        (\<forall>err. fst (generateObject e buf (Suc i)) = Inl err \<longrightarrow> pages ! i = placeholder (Suc i))"
  proof -
    fix i assume "i < N"
    then have "i < length [1..<Suc N]" by simp
    from list_all2_nthD[OF all this] \<open>i < N\<close> show "pageNumber (pages ! i) = Suc i \<and>
        (\<forall>err. fst (generateObject e buf (Suc i)) = Inl err \<longrightarrow> pages ! i = placeholder (Suc i))"
      by (simp del: upt_Suc)
  qed
  have numbers: "map pageNumber pages = [1..<Suc N]"
    by (rule nth_equalityI) (use len nth in \<open>auto simp del: upt_Suc\<close>)
  from pagesLoop_rows[of e buf d db "clock w" N 1 "[]" w2]
  obtain new where new: "extractedPageData w' = extractedPageData w @ new"
      "sorted_wrt (<) (map row_pageNumber new)"
      "\<forall>r \<in> set new. 1 \<le> row_pageNumber r \<and> row_pageNumber r \<le> N \<and> row_documentId r = d \<and>
        (\<exists>res. fst (generateObject e buf (row_pageNumber r)) = Inr res \<and>
           r = pageValues d (pageDataOf (row_pageNumber r) (result_object res)))"
    unfolding w' by (auto simp: w2_def)
  have dist: "distinct (map row_pageNumber new)"
    using new(2) strict_sorted_iff by blast
  have sub: "set (map row_pageNumber new) \<subseteq> {1..N}" using new(3) by auto
  have "length new = card (set (map row_pageNumber new))"
    using distinct_card[OF dist] by simp
  also have "\<dots> \<le> card {1..N}" by (rule card_mono[OF _ sub]) simp
  finally have le: "length new \<le> N" by simp
  have failed: "\<forall>p err. 1 \<le> p \<and> p \<le> N \<and> fst (generateObject e buf p) = Inl err \<longrightarrow>
           pages ! (p - 1) = placeholder p \<and> p \<notin> row_pageNumber ` set new"
  proof (intro allI impI)
    fix p err assume p: "1 \<le> p \<and> p \<le> N \<and> fst (generateObject e buf p) = Inl err"
    then have "p - 1 < N" "Suc (p - 1) = p" by auto
    with nth[of "p - 1"] p have "pages ! (p - 1) = placeholder p" by simp
    moreover have "p \<notin> row_pageNumber ` set new"
    proof
      assume "p \<in> row_pageNumber ` set new"
      then obtain r where "r \<in> set new" "row_pageNumber r = p" by auto
      with new(3) p show False by auto
    qed
    ultimately show "pages ! (p - 1) = placeholder p \<and> p \<notin> row_pageNumber ` set new" ..
  qed
  have complete: "map row_pageNumber new = [1..<Suc N]"
    if accept: "\<forall>i. \<not> storeRejects e i"
      and fresh: "\<forall>r \<in> set (extractedPageData w). row_documentId r \<noteq> d"
      and succeed: "\<forall>p. 1 \<le> p \<and> p \<le> N \<longrightarrow> (\<exists>res. fst (generateObject e buf p) = Inr res)"
  proof -
    have "extractedPageData w' =
        extractedPageData w @ concat (map (expectedRows e buf d) [1..<Suc N])"
      using run_accepted(2)[OF accept fresh assms(2), of db] assms(1) by simp
    then have eq: "new = concat (map (expectedRows e buf d) [1..<Suc N])"
      unfolding new(1) by simp
    have "map row_pageNumber (expectedRows e buf d p) = [p]" if "p \<in> set [1..<Suc N]" for p
    proof -
      from that succeed obtain res where "fst (generateObject e buf p) = Inr res" by auto
      then show ?thesis by (simp add: expectedRows_def pageValues_def pageDataOf_def)
    qed
    then show ?thesis unfolding eq by (rule concat_singletons)
  qed
  show ?thesis using numbers new(1,3) dist le failed complete by blast
qed

text \<open>
  The two-page scenario: page 1 is persisted, page 2 is a placeholder in the result. The
  three-page scenario, where every page succeeds: three rows, for pages 1, 2 and 3.
\<close>

theorem page_records_of_run_witness:
  "(pdf throwingStub ''%PDF'' = Inr 2 \<and>
    fst (extractPODDataFromPDF throwingStub documentOne ''%PDF'' DB sampleWorld) =
      Inr [pageDataOf 1 stubObject, placeholder 2] \<and>
    (map pageNumber [pageDataOf 1 stubObject, placeholder 2] = [1..<Suc 2] \<and>
     (\<exists>new. extractedPageData
               (snd (extractPODDataFromPDF throwingStub documentOne ''%PDF'' DB sampleWorld)) =
             extractedPageData sampleWorld @ new \<and>
        distinct (map row_pageNumber new) \<and> length new \<le> 2 \<and>
        (\<forall>r \<in> set new. row_documentId r = documentOne \<and> 1 \<le> row_pageNumber r \<and>
           row_pageNumber r \<le> 2 \<and>
           (\<exists>res. fst (generateObject throwingStub ''%PDF'' (row_pageNumber r)) = Inr res \<and>
              r = pageValues documentOne (pageDataOf (row_pageNumber r) (result_object res)))) \<and>
        (\<forall>p err. 1 \<le> p \<and> p \<le> 2 \<and> fst (generateObject throwingStub ''%PDF'' p) = Inl err \<longrightarrow>
           [pageDataOf 1 stubObject, placeholder 2] ! (p - 1) = placeholder p \<and>
           p \<notin> row_pageNumber ` set new) \<and>
        ((\<forall>i. \<not> storeRejects throwingStub i) \<and>
         (\<forall>r \<in> set (extractedPageData sampleWorld). row_documentId r \<noteq> documentOne) \<and>
         (\<forall>p. 1 \<le> p \<and> p \<le> 2 \<longrightarrow>
            (\<exists>res. fst (generateObject throwingStub ''%PDF'' p) = Inr res)) \<longrightarrow>
           map row_pageNumber new = [1..<Suc 2])))) \<and>
   map row_pageNumber
     (extractedPageData (snd (extractPODDataFromPDF usageStub documentOne ''%PDF'' DB sampleWorld))) =
     [1, 2, 3]"
proof
  have f: "fst (extractPODDataFromPDF throwingStub documentOne ''%PDF'' DB sampleWorld) =
      Inr [pageDataOf 1 stubObject, placeholder 2]"
    by (simp add: eval_defs scenario_defs)
  have run: "extractPODDataFromPDF throwingStub documentOne ''%PDF'' DB sampleWorld =
     (Inr [pageDataOf 1 stubObject, placeholder 2],
      snd (extractPODDataFromPDF throwingStub documentOne ''%PDF'' DB sampleWorld))"
    by (rule prod_eqI) (simp_all add: f)
  have p: "pdf throwingStub ''%PDF'' = Inr 2" by (simp add: throwingStub_def)
  show "pdf throwingStub ''%PDF'' = Inr 2 \<and>
    fst (extractPODDataFromPDF throwingStub documentOne ''%PDF'' DB sampleWorld) =
      Inr [pageDataOf 1 stubObject, placeholder 2] \<and>
    (map pageNumber [pageDataOf 1 stubObject, placeholder 2] = [1..<Suc 2] \<and>
     (\<exists>new. extractedPageData
               (snd (extractPODDataFromPDF throwingStub documentOne ''%PDF'' DB sampleWorld)) =
             extractedPageData sampleWorld @ new \<and>
        distinct (map row_pageNumber new) \<and> length new \<le> 2 \<and>
        (\<forall>r \<in> set new. row_documentId r = documentOne \<and> 1 \<le> row_pageNumber r \<and>
           row_pageNumber r \<le> 2 \<and>
           (\<exists>res. fst (generateObject throwingStub ''%PDF'' (row_pageNumber r)) = Inr res \<and>
              r = pageValues documentOne (pageDataOf (row_pageNumber r) (result_object res)))) \<and>
        (\<forall>p err. 1 \<le> p \<and> p \<le> 2 \<and> fst (generateObject throwingStub ''%PDF'' p) = Inl err \<longrightarrow>
           [pageDataOf 1 stubObject, placeholder 2] ! (p - 1) = placeholder p \<and>
           p \<notin> row_pageNumber ` set new) \<and>
        ((\<forall>i. \<not> storeRejects throwingStub i) \<and>
         (\<forall>r \<in> set (extractedPageData sampleWorld). row_documentId r \<noteq> documentOne) \<and>
         (\<forall>p. 1 \<le> p \<and> p \<le> 2 \<longrightarrow>
            (\<exists>res. fst (generateObject throwingStub ''%PDF'' p) = Inr res)) \<longrightarrow>
           map row_pageNumber new = [1..<Suc 2])))"
    by (rule conjI[OF p conjI[OF f page_records_of_run[OF run p]]])
next
  let ?run = "extractPODDataFromPDF usageStub documentOne ''%PDF'' DB sampleWorld"
  have f: "fst ?run = Inr [pageDataOf 1 stubObject, pageDataOf 2 stubObject, pageDataOf 3 stubObject]"
    by (simp add: eval_defs scenario_defs)
  have run: "?run =
     (Inr [pageDataOf 1 stubObject, pageDataOf 2 stubObject, pageDataOf 3 stubObject], snd ?run)"
    by (rule prod_eqI) (simp_all add: f)
  have p: "pdf usageStub ''%PDF'' = Inr 3" by (simp add: usageStub_def)
  have accept: "\<forall>i. \<not> storeRejects usageStub i" by (simp add: usageStub_def)
  have fresh: "\<forall>r \<in> set (extractedPageData sampleWorld). row_documentId r \<noteq> documentOne"
    by (simp add: sampleWorld_def)
  have succeed: "\<forall>p. 1 \<le> p \<and> p \<le> 3 \<longrightarrow>
      (\<exists>res. fst (generateObject usageStub ''%PDF'' p) = Inr res)"
    by (simp add: usageStub_def)
  from page_records_of_run[OF run p] obtain new where
    new: "extractedPageData (snd ?run) = extractedPageData sampleWorld @ new"
    and all: "(\<forall>i. \<not> storeRejects usageStub i) \<and>
         (\<forall>r \<in> set (extractedPageData sampleWorld). row_documentId r \<noteq> documentOne) \<and>
         (\<forall>p. 1 \<le> p \<and> p \<le> 3 \<longrightarrow>
            (\<exists>res. fst (generateObject usageStub ''%PDF'' p) = Inr res)) \<longrightarrow>
           map row_pageNumber new = [1..<Suc 3]"
    by (elim exE conjE) (erule that, assumption)
  from all accept fresh succeed have "map row_pageNumber new = [1..<Suc 3]" by blast
  moreover have "extractedPageData sampleWorld = []" by (simp add: sampleWorld_def)
  ultimately show "map row_pageNumber (extractedPageData (snd ?run)) = [1, 2, 3]"
    unfolding new by (simp add: upt_rec)
qed

text \<open>
  The claim as stated fails: on a one-page PDF whose model call throws, the run completes
  and returns the placeholder, and the document has no persisted Page Record at all.
\<close>

theorem page_records_counterexample:
  "pdf failingStub ''%PDF'' = Inr 1 \<and>
   fst (extractPODDataFromPDF failingStub documentOne ''%PDF'' DB sampleWorld) = Inr [placeholder 1] \<and>
   getExtractedData documentOne
     (snd (extractPODDataFromPDF failingStub documentOne ''%PDF'' DB sampleWorld)) = []"
  by (simp add: eval_defs getExtractedData_def scenario_defs)

text \<open>
  Claim C2, as the code has it. Take a run on a store that accepts every statement, for
  a document that is in the store and has no page rows yet, whose PDF parses to \<open>N\<close>
  pages. If the model call of page \<open>k\<close> throws and the model call of every other page
  succeeds, then the run completes and returns \<open>N\<close> records. The record it returns for
  page \<open>k\<close> has the three container arrays empty and \<open>unsureFields = ["*all*"]\<close>, but
  no Page Record is persisted for page \<open>k\<close>: the extracted-data read path gives the rows
  of the pages other than \<open>k\<close>, in page order, and none with page number \<open>k\<close>. Every
  other page has, in the returned list and as its persisted row, exactly the values of
  the object the model returned for it. The status read path gives COMPLETED, with the
  extraction id of this run.
\<close>

theorem single_page_failure:
  assumes accept: "\<forall>i. \<not> storeRejects e i"
      and wellformed: "isUuid e d"
      and present: "\<exists>r \<in> set (uploadDocuments w). doc_documentId r = d"
      and fresh: "\<forall>r \<in> set (extractedPageData w). row_documentId r \<noteq> d"
      and parse: "pdf e buf = Inr N"
      and k: "1 \<le> k" "k \<le> N" "fst (generateObject e buf k) = Inl err"
      and others: "\<forall>p. 1 \<le> p \<and> p \<le> N \<and> p \<noteq> k \<longrightarrow> (\<exists>res. fst (generateObject e buf p) = Inr res)"
  shows "\<exists>pages w'. extractPODDataFromPDF e d buf db w = (Inr pages, w') \<and> length pages = N \<and>
     pages ! (k - 1) =
       \<lparr>pageNumber = k, containerNumbers = [], containerSizes = [], fullEmptyStatuses = [],
        pageDate = None, instructionNumber = None, vehicleNumber = None, collectedFrom = None,
        deliveredTo = None, unsureFields = [''*all*'']\<rparr> \<and>
     k \<notin> row_pageNumber ` set (getExtractedData d w') \<and>
     map row_pageNumber (getExtractedData d w') = filter (\<lambda>p. p \<noteq> k) [1..<Suc N] \<and>
     (\<forall>p. 1 \<le> p \<and> p \<le> N \<and> p \<noteq> k \<longrightarrow>
        (\<exists>res. fst (generateObject e buf p) = Inr res \<and>
           pages ! (p - 1) =
             \<lparr>pageNumber = p,
              containerNumbers = obj_containerNumbers (result_object res),
              containerSizes = obj_containerSizes (result_object res),
              fullEmptyStatuses = obj_fullEmptyStatuses (result_object res),
              pageDate = obj_pageDate (result_object res),
              instructionNumber = obj_instructionNumber (result_object res),
              vehicleNumber = obj_vehicleNumber (result_object res),
              collectedFrom = obj_collectedFrom (result_object res),
              deliveredTo = obj_deliveredTo (result_object res),
              unsureFields = obj_unsureFields (result_object res)\<rparr> \<and>
           \<lparr>row_documentId = d,
            row_pageNumber = p,
            row_containerNumbers = obj_containerNumbers (result_object res),
            row_containerSizes = obj_containerSizes (result_object res),
            row_fullEmptyStatuses = obj_fullEmptyStatuses (result_object res),
            row_pageDate = obj_pageDate (result_object res),
            row_instructionNumber = obj_instructionNumber (result_object res),
            row_vehicleNumber = obj_vehicleNumber (result_object res),
            row_collectedFrom = obj_collectedFrom (result_object res),
            row_deliveredTo = obj_deliveredTo (result_object res),
            row_unsureFields = obj_unsureFields (result_object res)\<rparr>
             \<in> set (getExtractedData d w'))) \<and>
     getExtractionStatus e d w' =
       Inr \<lparr>view_documentId = d, view_status = COMPLETED,
            view_extractionId = Some (randomUUID e (uuidCount w))\<rparr>"
proof -
  let ?run = "extractPODDataFromPDF e d buf db w"
  let ?rows = "concat (map (expectedRows e buf d) [1..<Suc N])"
  note acc = run_accepted[OF accept fresh parse, of db]
  have pages: "fst ?run = Inr (map (expectedPage e buf) [1..<Suc N])" by (rule acc(1))
  have nth: "\<And>p. 1 \<le> p \<Longrightarrow> p \<le> N \<Longrightarrow> map (expectedPage e buf) [1..<Suc N] ! (p - 1) = expectedPage e buf p"
  proof -
    fix p :: nat assume "1 \<le> p" "p \<le> N"
    then have "p - 1 < length [1..<Suc N]" "[1..<Suc N] ! (p - 1) = p"
      by (auto simp del: upt_Suc)
    then show "map (expectedPage e buf) [1..<Suc N] ! (p - 1) = expectedPage e buf p"
      by (simp del: upt_Suc)
  qed
  have failed: "map (expectedPage e buf) [1..<Suc N] ! (k - 1) =
       \<lparr>pageNumber = k, containerNumbers = [], containerSizes = [], fullEmptyStatuses = [],
        pageDate = None, instructionNumber = None, vehicleNumber = None, collectedFrom = None,
        deliveredTo = None, unsureFields = [''*all*'']\<rparr>"
    using nth[OF k(1,2)] k(3) by (simp add: expectedPage_def placeholder_def)
  have own: "\<forall>r \<in> set ?rows. row_documentId r = d"
    by (auto simp: expectedRows_def pageValues_def split: sum.splits)
  have numbers: "map row_pageNumber ?rows = filter (\<lambda>p. p \<noteq> k) [1..<Suc N]"
  proof (rule concat_filter)
    fix p assume "p \<in> set [1..<Suc N]"
    then have p: "1 \<le> p \<and> p \<le> N" by auto
    show "map row_pageNumber (expectedRows e buf d p) = (if p \<noteq> k then [p] else [])"
    proof (cases "p = k")
      case True
      then show ?thesis using k(3) by (simp add: expectedRows_def)
    next
      case False
      with others p obtain res where "fst (generateObject e buf p) = Inr res" by blast
      then show ?thesis using False by (simp add: expectedRows_def pageValues_def pageDataOf_def)
    qed
  qed
  have "sorted (filter (\<lambda>p. p \<noteq> k) [1..<Suc N])"
    by (rule sorted_wrt_filter) (simp del: upt_Suc)
  then have ordered: "sorted (map row_pageNumber ?rows)" unfolding numbers .
  have stored: "getExtractedData d (snd ?run) = ?rows"
  proof -
    have a: "filter (\<lambda>r. row_documentId r = d) (extractedPageData w) = []"
      using fresh by (simp add: filter_empty_conv)
    have b: "filter (\<lambda>r. row_documentId r = d) ?rows = ?rows"
      using own by (simp add: filter_id_conv del: upt_Suc)
    have "getExtractedData d (snd ?run) = sort_key row_pageNumber ?rows"
      unfolding getExtractedData_def acc(2) filter_append a b by simp
    also have "\<dots> = ?rows" by (rule sort_key_id_if_sorted[OF ordered])
    finally show ?thesis .
  qed
  have read: "map row_pageNumber (getExtractedData d (snd ?run)) = filter (\<lambda>p. p \<noteq> k) [1..<Suc N]"
    unfolding stored by (rule numbers)
  have absent: "k \<notin> row_pageNumber ` set (getExtractedData d (snd ?run))"
  proof -
    have "row_pageNumber ` set (getExtractedData d (snd ?run)) =
        set (map row_pageNumber (getExtractedData d (snd ?run)))" by simp
    also have "\<dots> = set (filter (\<lambda>p. p \<noteq> k) [1..<Suc N])" unfolding read ..
    finally show ?thesis by simp
  qed
  have ok: "\<forall>p. 1 \<le> p \<and> p \<le> N \<and> p \<noteq> k \<longrightarrow>
        (\<exists>res. fst (generateObject e buf p) = Inr res \<and>
           map (expectedPage e buf) [1..<Suc N] ! (p - 1) =
             \<lparr>pageNumber = p,
              containerNumbers = obj_containerNumbers (result_object res),
              containerSizes = obj_containerSizes (result_object res),
              fullEmptyStatuses = obj_fullEmptyStatuses (result_object res),
              pageDate = obj_pageDate (result_object res),
              instructionNumber = obj_instructionNumber (result_object res),
              vehicleNumber = obj_vehicleNumber (result_object res),
              collectedFrom = obj_collectedFrom (result_object res),
              deliveredTo = obj_deliveredTo (result_object res),
              unsureFields = obj_unsureFields (result_object res)\<rparr> \<and>
           \<lparr>row_documentId = d,
            row_pageNumber = p,
            row_containerNumbers = obj_containerNumbers (result_object res),
            row_containerSizes = obj_containerSizes (result_object res),
            row_fullEmptyStatuses = obj_fullEmptyStatuses (result_object res),
            row_pageDate = obj_pageDate (result_object res),
            row_instructionNumber = obj_instructionNumber (result_object res),
            row_vehicleNumber = obj_vehicleNumber (result_object res),
            row_collectedFrom = obj_collectedFrom (result_object res),
            row_deliveredTo = obj_deliveredTo (result_object res),
            row_unsureFields = obj_unsureFields (result_object res)\<rparr>
             \<in> set (getExtractedData d (snd ?run)))"
  proof (intro allI impI)
    fix p assume p: "1 \<le> p \<and> p \<le> N \<and> p \<noteq> k"
    with others obtain res where res: "fst (generateObject e buf p) = Inr res" by blast
    let ?row = "\<lparr>row_documentId = d,
            row_pageNumber = p,
            row_containerNumbers = obj_containerNumbers (result_object res),
            row_containerSizes = obj_containerSizes (result_object res),
            row_fullEmptyStatuses = obj_fullEmptyStatuses (result_object res),
            row_pageDate = obj_pageDate (result_object res),
            row_instructionNumber = obj_instructionNumber (result_object res),
            row_vehicleNumber = obj_vehicleNumber (result_object res),
            row_collectedFrom = obj_collectedFrom (result_object res),
            row_deliveredTo = obj_deliveredTo (result_object res),
            row_unsureFields = obj_unsureFields (result_object res)\<rparr>"
    have page: "map (expectedPage e buf) [1..<Suc N] ! (p - 1) =
             \<lparr>pageNumber = p,
              containerNumbers = obj_containerNumbers (result_object res),
              containerSizes = obj_containerSizes (result_object res),
              fullEmptyStatuses = obj_fullEmptyStatuses (result_object res),
              pageDate = obj_pageDate (result_object res),
              instructionNumber = obj_instructionNumber (result_object res),
              vehicleNumber = obj_vehicleNumber (result_object res),
              collectedFrom = obj_collectedFrom (result_object res),
              deliveredTo = obj_deliveredTo (result_object res),
              unsureFields = obj_unsureFields (result_object res)\<rparr>"
      using nth[of p] p res by (simp add: expectedPage_def pageDataOf_def)
    have pin: "p \<in> set [1..<Suc N]" using p by auto
    have "?row \<in> set (expectedRows e buf d p)"
      by (simp add: expectedRows_def res pageValues_def pageDataOf_def)
    then have "?row \<in> set ?rows"
      unfolding set_concat set_map using pin by blast
    then have row: "?row \<in> set (getExtractedData d (snd ?run))" unfolding stored .
    from res page row show "\<exists>res. fst (generateObject e buf p) = Inr res \<and>
           map (expectedPage e buf) [1..<Suc N] ! (p - 1) =
             \<lparr>pageNumber = p,
              containerNumbers = obj_containerNumbers (result_object res),
              containerSizes = obj_containerSizes (result_object res),
              fullEmptyStatuses = obj_fullEmptyStatuses (result_object res),
              pageDate = obj_pageDate (result_object res),
              instructionNumber = obj_instructionNumber (result_object res),
              vehicleNumber = obj_vehicleNumber (result_object res),
              collectedFrom = obj_collectedFrom (result_object res),
              deliveredTo = obj_deliveredTo (result_object res),
              unsureFields = obj_unsureFields (result_object res)\<rparr> \<and>
           \<lparr>row_documentId = d,
            row_pageNumber = p,
            row_containerNumbers = obj_containerNumbers (result_object res),
            row_containerSizes = obj_containerSizes (result_object res),
            row_fullEmptyStatuses = obj_fullEmptyStatuses (result_object res),
            row_pageDate = obj_pageDate (result_object res),
            row_instructionNumber = obj_instructionNumber (result_object res),
            row_vehicleNumber = obj_vehicleNumber (result_object res),
            row_collectedFrom = obj_collectedFrom (result_object res),
            row_deliveredTo = obj_deliveredTo (result_object res),
            row_unsureFields = obj_unsureFields (result_object res)\<rparr>
             \<in> set (getExtractedData d (snd ?run))"
      by blast
  qed
  from find_document[OF present] obtain doc where
    doc: "find (\<lambda>r. doc_documentId r = d) (uploadDocuments w) = Some doc"
    by blast
  have status: "getExtractionStatus e d (snd ?run) =
       Inr \<lparr>view_documentId = d, view_status = COMPLETED,
            view_extractionId = Some (randomUUID e (uuidCount w))\<rparr>"
    by (rule status_after_updates[OF wellformed doc acc(3)])
  have "?run = (Inr (map (expectedPage e buf) [1..<Suc N]), snd ?run)"
    by (rule prod_eqI) (simp_all add: pages)
  moreover have "length (map (expectedPage e buf) [1..<Suc N]) = N" by (simp del: upt_Suc)
  ultimately show ?thesis using failed absent read ok status by blast
qed

text \<open>The two-page scenario of the specification: page 1 succeeds, page 2 throws.\<close>

theorem single_page_failure_witness:
  "\<exists>pages w'. extractPODDataFromPDF throwingStub documentOne ''%PDF'' DB sampleWorld = (Inr pages, w') \<and>
     length pages = 2 \<and>
     pages ! (2 - 1) =
       \<lparr>pageNumber = 2, containerNumbers = [], containerSizes = [], fullEmptyStatuses = [],
        pageDate = None, instructionNumber = None, vehicleNumber = None, collectedFrom = None,
        deliveredTo = None, unsureFields = [''*all*'']\<rparr> \<and>
     2 \<notin> row_pageNumber ` set (getExtractedData documentOne w') \<and>
     map row_pageNumber (getExtractedData documentOne w') = filter (\<lambda>p. p \<noteq> 2) [1..<Suc 2] \<and>
     (\<forall>p. 1 \<le> p \<and> p \<le> 2 \<and> p \<noteq> 2 \<longrightarrow>
        (\<exists>res. fst (generateObject throwingStub ''%PDF'' p) = Inr res \<and>
           pages ! (p - 1) =
             \<lparr>pageNumber = p,
              containerNumbers = obj_containerNumbers (result_object res),
              containerSizes = obj_containerSizes (result_object res),
              fullEmptyStatuses = obj_fullEmptyStatuses (result_object res),
              pageDate = obj_pageDate (result_object res),
              instructionNumber = obj_instructionNumber (result_object res),
              vehicleNumber = obj_vehicleNumber (result_object res),
              collectedFrom = obj_collectedFrom (result_object res),
              deliveredTo = obj_deliveredTo (result_object res),
              unsureFields = obj_unsureFields (result_object res)\<rparr> \<and>
           \<lparr>row_documentId = documentOne,
            row_pageNumber = p,
            row_containerNumbers = obj_containerNumbers (result_object res),
            row_containerSizes = obj_containerSizes (result_object res),
            row_fullEmptyStatuses = obj_fullEmptyStatuses (result_object res),
            row_pageDate = obj_pageDate (result_object res),
            row_instructionNumber = obj_instructionNumber (result_object res),
            row_vehicleNumber = obj_vehicleNumber (result_object res),
            row_collectedFrom = obj_collectedFrom (result_object res),
            row_deliveredTo = obj_deliveredTo (result_object res),
            row_unsureFields = obj_unsureFields (result_object res)\<rparr>
             \<in> set (getExtractedData documentOne w'))) \<and>
     getExtractionStatus throwingStub documentOne w' =
       Inr \<lparr>view_documentId = documentOne, view_status = COMPLETED,
            view_extractionId = Some (randomUUID throwingStub (uuidCount sampleWorld))\<rparr>"
proof (rule single_page_failure[where e = throwingStub and d = documentOne and buf = "''%PDF''"
      and db = DB and w = sampleWorld and N = 2 and k = 2 and err = "Error ''model call failed''"])
  show "\<forall>i. \<not> storeRejects throwingStub i" by (simp add: throwingStub_def)
  show "isUuid throwingStub documentOne" by (simp add: scenario_defs)
  show "\<exists>r \<in> set (uploadDocuments sampleWorld). doc_documentId r = documentOne"
    by (simp add: sampleWorld_def sampleDocument_def)
  show "\<forall>r \<in> set (extractedPageData sampleWorld). row_documentId r \<noteq> documentOne"
    by (simp add: sampleWorld_def)
  show "pdf throwingStub ''%PDF'' = Inr 2" by (simp add: throwingStub_def)
  show "(1::nat) \<le> 2" by simp
  show "(2::nat) \<le> 2" by simp
  show "fst (generateObject throwingStub ''%PDF'' 2) = Inl (Error ''model call failed'')"
    by (simp add: throwingStub_def)
  show "\<forall>p. 1 \<le> p \<and> p \<le> 2 \<and> p \<noteq> 2 \<longrightarrow>
      (\<exists>res. fst (generateObject throwingStub ''%PDF'' p) = Inr res)"
    by (simp add: throwingStub_def)
qed

text \<open>
  The claim as stated fails: in the two-page scenario the run returns the placeholder as
  the record of page 2 and ends COMPLETED, and the store holds one Page Record for the
  document, that of page 1: there is no Page Record for page 2.
\<close>

theorem single_page_failure_counterexample:
  "pdf throwingStub ''%PDF'' = Inr 2 \<and>
   fst (generateObject throwingStub ''%PDF'' 2) = Inl (Error ''model call failed'') \<and>
   fst (extractPODDataFromPDF throwingStub documentOne ''%PDF'' DB sampleWorld) =
     Inr [\<lparr>pageNumber = 1, containerNumbers = [Some ''ABCD1234567''],
           containerSizes = [Some ''40ft''], fullEmptyStatuses = [Some ''FULL''],
           pageDate = None, instructionNumber = None, vehicleNumber = None,
           collectedFrom = None, deliveredTo = None, unsureFields = []\<rparr>,
          \<lparr>pageNumber = 2, containerNumbers = [], containerSizes = [], fullEmptyStatuses = [],
           pageDate = None, instructionNumber = None, vehicleNumber = None,
           collectedFrom = None, deliveredTo = None, unsureFields = [''*all*'']\<rparr>] \<and>
   map row_pageNumber
     (getExtractedData documentOne
        (snd (extractPODDataFromPDF throwingStub documentOne ''%PDF'' DB sampleWorld))) = [1] \<and>
   getExtractionStatus throwingStub documentOne
     (snd (extractPODDataFromPDF throwingStub documentOne ''%PDF'' DB sampleWorld)) =
     Inr \<lparr>view_documentId = documentOne, view_status = COMPLETED,
          view_extractionId = Some (sampleUUID 0)\<rparr>"
  by (simp add: eval_defs getExtractedData_def getExtractionStatus_def scenario_defs)

section \<open>Usage records of a run\<close>

text \<open>
  Claim C3, as the code has it. Take a run whose PROCESSING update the store accepts and
  whose PDF parses to \<open>N\<close> pages. The usage records the run persists are, in page
  order: exactly one for each page whose model call succeeds and reports usage and whose
  page insert and usage insert the store both accepts (the page insert is refused, too,
  when the page already has a row); none for any other page. The record of page \<open>p\<close>
  carries the request id drawn at the start of that page's extraction (the \<open>p\<close>-th draw
  after the run's own), the reported token counts with a missing one as 0, and as
  duration the time elapsed since the whole run began: \<open>startTime\<close> is read once, when
  the run starts, and handed to every page, and \<open>Date.now()\<close> is read when the page
  insert has settled, so the duration of page \<open>p\<close> runs from the start of the run to
  the end of the page insert of page \<open>p\<close>.
\<close>

theorem usage_records_of_run:
  assumes accepted: "\<not> storeRejects e (writes w)"
      and parse: "pdf e buf = Inr N"
  shows "documentTokenUsage (snd (extractPODDataFromPDF e d buf db w)) =
     documentTokenUsage w @
     concat (map (\<lambda>p.
        case fst (generateObject e buf p) of
          Inl err \<Rightarrow> []
        | Inr res \<Rightarrow>
            (case result_usage res of
               None \<Rightarrow> []
             | Some u \<Rightarrow>
                 if storeRejects e (writes (pageEntry e buf d db w p)) \<or>
                    (\<exists>r \<in> set (extractedPageData (pageEntry e buf d db w p)).
                        row_documentId r = d \<and> row_pageNumber r = p) \<or>
                    storeRejects e (Suc (writes (pageEntry e buf d db w p)))
                 then []
                 else [\<lparr>tu_documentId = d,
                        tu_requestId = randomUUID e (uuidCount w + p),
                        tu_inputTokens = (case promptTokens u of None \<Rightarrow> 0 | Some n \<Rightarrow> n),
                        tu_toolUsePromptTokens = 0,
                        tu_cachedContentTokens = 0,
                        tu_candidatesTokens = (case completionTokens u of None \<Rightarrow> 0 | Some n \<Rightarrow> n),
                        tu_thoughtsTokens = 0,
                        tu_outputTokens = (case completionTokens u of None \<Rightarrow> 0 | Some n \<Rightarrow> n),
                        tu_totalTokens = (case usageTotalTokens u of None \<Rightarrow> 0 | Some n \<Rightarrow> n),
                        tu_durationMs =
                          clock (pageEntry e buf d db w p) + int (snd (generateObject e buf p)) +
                          int (storeTime e (writes (pageEntry e buf d db w p))) - clock w\<rparr>]))
       [1..<Suc N])"
proof -
  have "map (\<lambda>p. pageUsage e buf d (clock w) p (pageEntry e buf d db w p)) [1..<Suc N] =
     map (\<lambda>p.
        case fst (generateObject e buf p) of
          Inl err \<Rightarrow> []
        | Inr res \<Rightarrow>
            (case result_usage res of
               None \<Rightarrow> []
             | Some u \<Rightarrow>
                 if storeRejects e (writes (pageEntry e buf d db w p)) \<or>
                    (\<exists>r \<in> set (extractedPageData (pageEntry e buf d db w p)).
                        row_documentId r = d \<and> row_pageNumber r = p) \<or>
                    storeRejects e (Suc (writes (pageEntry e buf d db w p)))
                 then []
                 else [\<lparr>tu_documentId = d,
                        tu_requestId = randomUUID e (uuidCount w + p),
                        tu_inputTokens = (case promptTokens u of None \<Rightarrow> 0 | Some n \<Rightarrow> n),
                        tu_toolUsePromptTokens = 0,
                        tu_cachedContentTokens = 0,
                        tu_candidatesTokens = (case completionTokens u of None \<Rightarrow> 0 | Some n \<Rightarrow> n),
                        tu_thoughtsTokens = 0,
                        tu_outputTokens = (case completionTokens u of None \<Rightarrow> 0 | Some n \<Rightarrow> n),
                        tu_totalTokens = (case usageTotalTokens u of None \<Rightarrow> 0 | Some n \<Rightarrow> n),
                        tu_durationMs =
                          clock (pageEntry e buf d db w p) + int (snd (generateObject e buf p)) +
                          int (storeTime e (writes (pageEntry e buf d db w p))) - clock w\<rparr>]))
       [1..<Suc N]"
  proof (rule map_cong[OF refl])
    fix p assume "p \<in> set [1..<Suc N]"
    then have "1 \<le> p" by (simp del: upt_Suc)
    from pageEntry_frame(1)[OF this, of e buf d db w]
    show "pageUsage e buf d (clock w) p (pageEntry e buf d db w p) =
       (case fst (generateObject e buf p) of
          Inl err \<Rightarrow> []
        | Inr res \<Rightarrow>
            (case result_usage res of
               None \<Rightarrow> []
             | Some u \<Rightarrow>
                 if storeRejects e (writes (pageEntry e buf d db w p)) \<or>
                    (\<exists>r \<in> set (extractedPageData (pageEntry e buf d db w p)).
                        row_documentId r = d \<and> row_pageNumber r = p) \<or>
                    storeRejects e (Suc (writes (pageEntry e buf d db w p)))
                 then []
                 else [\<lparr>tu_documentId = d,
                        tu_requestId = randomUUID e (uuidCount w + p),
                        tu_inputTokens = (case promptTokens u of None \<Rightarrow> 0 | Some n \<Rightarrow> n),
                        tu_toolUsePromptTokens = 0,
                        tu_cachedContentTokens = 0,
                        tu_candidatesTokens = (case completionTokens u of None \<Rightarrow> 0 | Some n \<Rightarrow> n),
                        tu_thoughtsTokens = 0,
                        tu_outputTokens = (case completionTokens u of None \<Rightarrow> 0 | Some n \<Rightarrow> n),
                        tu_totalTokens = (case usageTotalTokens u of None \<Rightarrow> 0 | Some n \<Rightarrow> n),
                        tu_durationMs =
                          clock (pageEntry e buf d db w p) + int (snd (generateObject e buf p)) +
                          int (storeTime e (writes (pageEntry e buf d db w p))) - clock w\<rparr>]))"
      by (auto simp: pageUsage_def orZero_def split: sum.splits option.splits)
  qed
  then show ?thesis unfolding run_usage[OF accepted parse] by (rule arg_cong[where f="\<lambda>x. documentTokenUsage w @ concat x"])
qed

text \<open>
  The three-page scenario: three separate records, with totals 100, 150 and 200, each
  with the request id of its own page.
\<close>

theorem usage_records_of_run_witness:
  "map tu_totalTokens (documentTokenUsage
       (snd (extractPODDataFromPDF usageStub documentOne ''%PDF'' DB sampleWorld))) = [100, 150, 200] \<and>
   map tu_requestId (documentTokenUsage
       (snd (extractPODDataFromPDF usageStub documentOne ''%PDF'' DB sampleWorld))) =
     [sampleUUID 1, sampleUUID 2, sampleUUID 3] \<and>
   documentTokenUsage (snd (extractPODDataFromPDF usageStub documentOne ''%PDF'' DB sampleWorld)) =
     documentTokenUsage sampleWorld @
     concat (map (\<lambda>p.
        case fst (generateObject usageStub ''%PDF'' p) of
          Inl err \<Rightarrow> []
        | Inr res \<Rightarrow>
            (case result_usage res of
               None \<Rightarrow> []
             | Some u \<Rightarrow>
                 if storeRejects usageStub (writes (pageEntry usageStub ''%PDF'' documentOne DB sampleWorld p)) \<or>
                    (\<exists>r \<in> set (extractedPageData (pageEntry usageStub ''%PDF'' documentOne DB sampleWorld p)).
                        row_documentId r = documentOne \<and> row_pageNumber r = p) \<or>
                    storeRejects usageStub (Suc (writes (pageEntry usageStub ''%PDF'' documentOne DB sampleWorld p)))
                 then []
                 else [\<lparr>tu_documentId = documentOne,
                        tu_requestId = randomUUID usageStub (uuidCount sampleWorld + p),
                        tu_inputTokens = (case promptTokens u of None \<Rightarrow> 0 | Some n \<Rightarrow> n),
                        tu_toolUsePromptTokens = 0,
                        tu_cachedContentTokens = 0,
                        tu_candidatesTokens = (case completionTokens u of None \<Rightarrow> 0 | Some n \<Rightarrow> n),
                        tu_thoughtsTokens = 0,
                        tu_outputTokens = (case completionTokens u of None \<Rightarrow> 0 | Some n \<Rightarrow> n),
                        tu_totalTokens = (case usageTotalTokens u of None \<Rightarrow> 0 | Some n \<Rightarrow> n),
                        tu_durationMs =
                          clock (pageEntry usageStub ''%PDF'' documentOne DB sampleWorld p) +
                          int (snd (generateObject usageStub ''%PDF'' p)) +
                          int (storeTime usageStub (writes (pageEntry usageStub ''%PDF'' documentOne DB sampleWorld p))) -
                          clock sampleWorld\<rparr>]))
       [1..<Suc 3])"
proof (intro conjI)
  show "map tu_totalTokens (documentTokenUsage
       (snd (extractPODDataFromPDF usageStub documentOne ''%PDF'' DB sampleWorld))) = [100, 150, 200]"
    by (simp add: eval_defs scenario_defs)
next
  show "map tu_requestId (documentTokenUsage
       (snd (extractPODDataFromPDF usageStub documentOne ''%PDF'' DB sampleWorld))) =
     [sampleUUID 1, sampleUUID 2, sampleUUID 3]"
    by (simp add: eval_defs scenario_defs)
next
  show "documentTokenUsage (snd (extractPODDataFromPDF usageStub documentOne ''%PDF'' DB sampleWorld)) =
     documentTokenUsage sampleWorld @
     concat (map (\<lambda>p.
        case fst (generateObject usageStub ''%PDF'' p) of
          Inl err \<Rightarrow> []
        | Inr res \<Rightarrow>
            (case result_usage res of
               None \<Rightarrow> []
             | Some u \<Rightarrow>
                 if storeRejects usageStub (writes (pageEntry usageStub ''%PDF'' documentOne DB sampleWorld p)) \<or>
                    (\<exists>r \<in> set (extractedPageData (pageEntry usageStub ''%PDF'' documentOne DB sampleWorld p)).
                        row_documentId r = documentOne \<and> row_pageNumber r = p) \<or>
                    storeRejects usageStub (Suc (writes (pageEntry usageStub ''%PDF'' documentOne DB sampleWorld p)))
                 then []
                 else [\<lparr>tu_documentId = documentOne,
                        tu_requestId = randomUUID usageStub (uuidCount sampleWorld + p),
                        tu_inputTokens = (case promptTokens u of None \<Rightarrow> 0 | Some n \<Rightarrow> n),
                        tu_toolUsePromptTokens = 0,
                        tu_cachedContentTokens = 0,
                        tu_candidatesTokens = (case completionTokens u of None \<Rightarrow> 0 | Some n \<Rightarrow> n),
                        tu_thoughtsTokens = 0,
                        tu_outputTokens = (case completionTokens u of None \<Rightarrow> 0 | Some n \<Rightarrow> n),
                        tu_totalTokens = (case usageTotalTokens u of None \<Rightarrow> 0 | Some n \<Rightarrow> n),
                        tu_durationMs =
                          clock (pageEntry usageStub ''%PDF'' documentOne DB sampleWorld p) +
                          int (snd (generateObject usageStub ''%PDF'' p)) +
                          int (storeTime usageStub (writes (pageEntry usageStub ''%PDF'' documentOne DB sampleWorld p))) -
                          clock sampleWorld\<rparr>]))
       [1..<Suc 3])"
  proof (rule usage_records_of_run)
    show "\<not> storeRejects usageStub (writes sampleWorld)" by (simp add: usageStub_def)
    show "pdf usageStub ''%PDF'' = Inr 3" by (simp add: usageStub_def)
  qed
qed

text \<open>
  The claim as stated fails on the duration: in the three-page scenario the calls take
  40, 50 and 60 ms, and the records of pages 2 and 3 carry 90 and 150 ms, the time since
  the run began, not the 50 and 60 ms since their own call began.
\<close>

theorem usage_duration_counterexample:
  "map tu_durationMs (documentTokenUsage
       (snd (extractPODDataFromPDF usageStub documentOne ''%PDF'' DB sampleWorld))) = [40, 90, 150] \<and>
   map tu_requestId (documentTokenUsage
       (snd (extractPODDataFromPDF usageStub documentOne ''%PDF'' DB sampleWorld))) =
     [''e0000000-0000-4000-8000-000000000001'', ''e0000000-0000-4000-8000-000000000002'',
      ''e0000000-0000-4000-8000-000000000003''] \<and>
   snd (generateObject usageStub ''%PDF'' 1) = 40 \<and>
   snd (generateObject usageStub ''%PDF'' 2) = 50 \<and>
   snd (generateObject usageStub ''%PDF'' 3) = 60"
  by (simp add: eval_defs scenario_defs)

section \<open>Status of a document during a run\<close>



section \<open>Upload, listing and read paths\<close>

text \<open>
  Claim C5, as the code has it. There are two upload operations, and neither does all the
  claim says. When the store accepts the insert (and the key it draws is an unused UUID):
  \<^item> the tRPC mutation \<open>upload\<close>, on an input that passes its schema, creates the document
    with status IDEAL, returns its identifier together with that status, and starts no
    extraction;
  \<^item> the HTTP endpoint, on a request with a PDF file of less than 10 MB (10485760 bytes),
    a user id and an instruction number, creates the document with status IDEAL, answers
    with its identifier (the answer carries no status) and starts the extraction of that
    document on the uploaded buffer without awaiting it: the job it leaves behind is the
    run \<open>extractPODDataFromPDF\<close> on the new identifier and that buffer.
  In both cases the status read path gives IDEAL for the new document when the operation
  returns. A PDF file of 10485760 bytes or more never reaches the handler: the upload
  middleware refuses it and nothing is created.
\<close>

theorem upload_contract:
  assumes accepted: "\<not> storeRejects e (writes w)"
      and unused: "\<forall>r \<in> set (uploadDocuments w). doc_documentId r \<noteq> defaultRandom e (keyCount w)"
      and key: "isUuid e (defaultRandom e (keyCount w))"
  shows "(uploadSchema e i \<longrightarrow>
           (\<exists>w'. upload e i w =
                    (Inr \<lparr>out_documentId = defaultRandom e (keyCount w), out_extractionStatus = IDEAL\<rparr>,
                     [], w') \<and>
                  getExtractionStatus e (defaultRandom e (keyCount w)) w' =
                    Inr \<lparr>view_documentId = defaultRandom e (keyCount w), view_status = IDEAL,
                         view_extractionId = None\<rparr>)) \<and>
         (req_file req = Some file \<and> mimetype file = ''application/pdf'' \<and>
          size file < 10 * 1024 * 1024 \<and>
          \<not> falsy (body_userId req) \<and> \<not> falsy (body_instructionNumber req) \<longrightarrow>
           (\<exists>w'. uploadDocument e req w =
                    (Json200 (defaultRandom e (keyCount w))
                       ''Document uploaded successfully. Processing started.'',
                     [ExtractJob (defaultRandom e (keyCount w)) (buffer file)], w') \<and>
                  getExtractionStatus e (defaultRandom e (keyCount w)) w' =
                    Inr \<lparr>view_documentId = defaultRandom e (keyCount w), view_status = IDEAL,
                         view_extractionId = None\<rparr> \<and>
                  runJob e (ExtractJob (defaultRandom e (keyCount w)) (buffer file)) w' =
                    snd (extractPODDataFromPDF e (defaultRandom e (keyCount w)) (buffer file) DB w'))) \<and>
         (req_file req = Some file \<and> mimetype file = ''application/pdf'' \<and>
          10485760 \<le> size file \<longrightarrow>
           uploadDocument e req w = (MiddlewareError ''File too large'', [], w))"
proof (intro conjI impI)
  assume schema: "uploadSchema e i"
  from insertUploadDocument_accepted[OF accepted unused, of
      "\<lparr>val_userId = in_userId i, val_instructionNumber = in_instructionNumber i,
        val_documentName = in_documentName i, val_fileUrl = in_fileUrl i,
        val_fileSizeInBytes = in_fileSizeInBytes i, val_companyId = in_companyId i,
        val_branchId = in_branchId i, val_extractionStatus = IDEAL\<rparr>"]
  obtain document w' where ins: "insertUploadDocument e
      \<lparr>val_userId = in_userId i, val_instructionNumber = in_instructionNumber i,
        val_documentName = in_documentName i, val_fileUrl = in_fileUrl i,
        val_fileSizeInBytes = in_fileSizeInBytes i, val_companyId = in_companyId i,
        val_branchId = in_branchId i, val_extractionStatus = IDEAL\<rparr> w = (Inr document, w')"
    and doc: "doc_documentId document = defaultRandom e (keyCount w)"
      "doc_extractionStatus document = IDEAL" "doc_extractionId document = None"
      "find (\<lambda>r. doc_documentId r = defaultRandom e (keyCount w)) (uploadDocuments w') = Some document"
    by auto
  show "\<exists>w'. upload e i w =
                    (Inr \<lparr>out_documentId = defaultRandom e (keyCount w), out_extractionStatus = IDEAL\<rparr>,
                     [], w') \<and>
                  getExtractionStatus e (defaultRandom e (keyCount w)) w' =
                    Inr \<lparr>view_documentId = defaultRandom e (keyCount w), view_status = IDEAL,
                         view_extractionId = None\<rparr>"
    using schema ins doc key
    by (intro exI[of _ w']) (simp add: upload_def getExtractionStatus_def)
next
  assume req: "req_file req = Some file \<and> mimetype file = ''application/pdf'' \<and>
          size file < 10 * 1024 * 1024 \<and>
          \<not> falsy (body_userId req) \<and> \<not> falsy (body_instructionNumber req)"
  let ?v = "\<lparr>val_userId = the (body_userId req),
                        val_instructionNumber = the (body_instructionNumber req),
                        val_documentName = originalname file,
                        val_fileUrl = ''memory://'' @ originalname file,
                        val_fileSizeInBytes = int (size file),
                        val_companyId = orNull (body_companyId req),
                        val_branchId = orNull (body_branchId req),
                        val_extractionStatus = IDEAL\<rparr>"
  from insertUploadDocument_accepted[OF accepted unused, of ?v]
  obtain document w' where ins: "insertUploadDocument e ?v w = (Inr document, w')"
    and doc: "doc_documentId document = defaultRandom e (keyCount w)"
      "doc_extractionStatus document = IDEAL" "doc_extractionId document = None"
      "find (\<lambda>r. doc_documentId r = defaultRandom e (keyCount w)) (uploadDocuments w') = Some document"
    by auto
  have small: "\<not> 10 * 1024 * 1024 \<le> size file" using req by simp
  show "\<exists>w'. uploadDocument e req w =
                    (Json200 (defaultRandom e (keyCount w))
                       ''Document uploaded successfully. Processing started.'',
                     [ExtractJob (defaultRandom e (keyCount w)) (buffer file)], w') \<and>
                  getExtractionStatus e (defaultRandom e (keyCount w)) w' =
                    Inr \<lparr>view_documentId = defaultRandom e (keyCount w), view_status = IDEAL,
                         view_extractionId = None\<rparr> \<and>
                  runJob e (ExtractJob (defaultRandom e (keyCount w)) (buffer file)) w' =
                    snd (extractPODDataFromPDF e (defaultRandom e (keyCount w)) (buffer file) DB w')"
    using req small ins doc key
    by (intro exI[of _ w']) (simp add: uploadDocument_def getExtractionStatus_def runJob_def)
next
  assume "req_file req = Some file \<and> mimetype file = ''application/pdf'' \<and> 10485760 \<le> size file"
  then show "uploadDocument e req w = (MiddlewareError ''File too large'', [], w)"
    by (simp add: uploadDocument_def)
qed

text \<open>
  Both operations on the sample store, whose next key is \<open>sampleKey 1\<close>, and the
  endpoint on a PDF file of exactly 10485760 bytes.
\<close>

theorem upload_contract_witness:
  "(\<exists>w'. upload throwingStub sampleUploadInput sampleWorld =
            (Inr \<lparr>out_documentId = sampleKey 1, out_extractionStatus = IDEAL\<rparr>, [], w') \<and>
          getExtractionStatus throwingStub (sampleKey 1) w' =
            Inr \<lparr>view_documentId = sampleKey 1, view_status = IDEAL, view_extractionId = None\<rparr>) \<and>
   (\<exists>w'. uploadDocument throwingStub sampleUploadRequest sampleWorld =
            (Json200 (sampleKey 1) ''Document uploaded successfully. Processing started.'',
             [ExtractJob (sampleKey 1) ''%PDF''], w') \<and>
          getExtractionStatus throwingStub (sampleKey 1) w' =
            Inr \<lparr>view_documentId = sampleKey 1, view_status = IDEAL, view_extractionId = None\<rparr> \<and>
          runJob throwingStub (ExtractJob (sampleKey 1) ''%PDF'') w' =
            snd (extractPODDataFromPDF throwingStub (sampleKey 1) ''%PDF'' DB w')) \<and>
   uploadDocument throwingStub
     (sampleUploadRequest\<lparr>req_file := Some \<lparr>originalname = ''second.pdf'',
         mimetype = ''application/pdf'', size = 10485760, buffer = ''%PDF''\<rparr>\<rparr>) sampleWorld =
     (MiddlewareError ''File too large'', [], sampleWorld)"
proof -
  let ?file = "\<lparr>originalname = ''second.pdf'', mimetype = ''application/pdf'',
                 size = 4096, buffer = ''%PDF''\<rparr>"
  let ?big = "\<lparr>originalname = ''second.pdf'', mimetype = ''application/pdf'',
                 size = 10485760, buffer = ''%PDF''\<rparr>"
  have accepted: "\<not> storeRejects throwingStub (writes sampleWorld)"
    by (simp add: throwingStub_def)
  have unused: "\<forall>r \<in> set (uploadDocuments sampleWorld).
      doc_documentId r \<noteq> defaultRandom throwingStub (keyCount sampleWorld)"
    by (simp add: scenario_defs)
  have key: "defaultRandom throwingStub (keyCount sampleWorld) = sampleKey 1"
    by (simp add: throwingStub_def sampleWorld_def)
  have wellformed: "isUuid throwingStub (defaultRandom throwingStub (keyCount sampleWorld))"
    by (simp add: scenario_defs)
  have schema: "uploadSchema throwingStub sampleUploadInput"
    by (simp add: uploadSchema_def sampleUploadInput_def scenario_defs)
  have req: "req_file sampleUploadRequest = Some ?file \<and> mimetype ?file = ''application/pdf'' \<and>
          size ?file < 10 * 1024 * 1024 \<and>
          \<not> falsy (body_userId sampleUploadRequest) \<and>
          \<not> falsy (body_instructionNumber sampleUploadRequest)"
    by (simp add: sampleUploadRequest_def falsy_def userOne_def)
  have big: "req_file (sampleUploadRequest\<lparr>req_file := Some ?big\<rparr>) = Some ?big \<and>
          mimetype ?big = ''application/pdf'' \<and> 10485760 \<le> size ?big"
    by simp
  from upload_contract[OF accepted unused wellformed, of sampleUploadInput sampleUploadRequest ?file]
    schema req
  have small: "(\<exists>w'. upload throwingStub sampleUploadInput sampleWorld =
            (Inr \<lparr>out_documentId = sampleKey 1, out_extractionStatus = IDEAL\<rparr>, [], w') \<and>
          getExtractionStatus throwingStub (sampleKey 1) w' =
            Inr \<lparr>view_documentId = sampleKey 1, view_status = IDEAL, view_extractionId = None\<rparr>) \<and>
   (\<exists>w'. uploadDocument throwingStub sampleUploadRequest sampleWorld =
            (Json200 (sampleKey 1) ''Document uploaded successfully. Processing started.'',
             [ExtractJob (sampleKey 1) ''%PDF''], w') \<and>
          getExtractionStatus throwingStub (sampleKey 1) w' =
            Inr \<lparr>view_documentId = sampleKey 1, view_status = IDEAL, view_extractionId = None\<rparr> \<and>
          runJob throwingStub (ExtractJob (sampleKey 1) ''%PDF'') w' =
            snd (extractPODDataFromPDF throwingStub (sampleKey 1) ''%PDF'' DB w'))"
    unfolding key by simp
  from upload_contract[OF accepted unused wellformed, of sampleUploadInput
      "sampleUploadRequest\<lparr>req_file := Some ?big\<rparr>" ?big] big
  have "uploadDocument throwingStub (sampleUploadRequest\<lparr>req_file := Some ?big\<rparr>) sampleWorld =
     (MiddlewareError ''File too large'', [], sampleWorld)"
    by blast
  with small show ?thesis by blast
qed

text \<open>
  The claim as stated fails: the tRPC mutation returns the identifier and IDEAL, and the
  list of jobs it has started is empty (its input carries no file content, and the call
  of the extraction service is commented out).
\<close>

theorem upload_counterexample:
  "uploadSchema throwingStub sampleUploadInput \<and>
   upload throwingStub sampleUploadInput sampleWorld =
     (Inr \<lparr>out_documentId = ''d0c00000-0000-4000-8000-000000000001'',
           out_extractionStatus = IDEAL\<rparr>, [],
      snd (snd (upload throwingStub sampleUploadInput sampleWorld)))"
  by (simp add: upload_eval statementDone_def sampleUploadInput_def scenario_defs)

text \<open>
  Claim C6. For every store, \<open>listDocuments\<close> works on one arrangement of all the
  documents by creation time descending, and every result it returns is in that order
  and holds at most 100 documents. Without an input it returns the first 20 of them.
  With an input it accepts a limit that is absent or from 1 to 100 and an offset that is
  absent or at least 0, and throws a validation error otherwise (a limit above 100 is
  refused, not reduced); an absent limit is 20, an absent offset is 0; the result is the
  arrangement without its first \<open>offset\<close> documents, cut after \<open>limit\<close>. When the store
  holds five documents created at five different times, limit 2 and offset 0 give the
  two most recently created ones, newest first, and limit 2 and offset 2 give the next
  two.
\<close>

theorem listDocuments_pagination:
  "\<exists>ordered. set ordered = set (uploadDocuments w) \<and>
      length ordered = length (uploadDocuments w) \<and>
      sorted_wrt (\<lambda>a b. doc_createdAt b \<le> doc_createdAt a) ordered \<and>
      listDocuments None w = Inr (take 20 ordered) \<and>
      (\<forall>input ds. listDocuments input w = Inr ds \<longrightarrow>
         sorted_wrt (\<lambda>a b. doc_createdAt b \<le> doc_createdAt a) ds \<and> length ds \<le> 100 \<and>
         set ds \<subseteq> set (uploadDocuments w)) \<and>
      (\<forall>l off. listDocuments (Some \<lparr>limit = l, offset = off\<rparr>) w =
         (if (case l of None \<Rightarrow> True | Some n \<Rightarrow> 0 < n \<and> n \<le> 100) \<and>
             (case off of None \<Rightarrow> True | Some m \<Rightarrow> 0 \<le> m)
          then Inr (take (nat (case l of None \<Rightarrow> 20 | Some n \<Rightarrow> n))
                      (drop (nat (case off of None \<Rightarrow> 0 | Some m \<Rightarrow> m)) ordered))
          else Inl ZodError)) \<and>
      (length (uploadDocuments w) = 5 \<and> distinct (map doc_createdAt (uploadDocuments w)) \<longrightarrow>
         (\<exists>a b c d e. ordered = [a, b, c, d, e] \<and>
            doc_createdAt b < doc_createdAt a \<and> doc_createdAt c < doc_createdAt b \<and>
            doc_createdAt d < doc_createdAt c \<and> doc_createdAt e < doc_createdAt d \<and>
            listDocuments (Some \<lparr>limit = Some 2, offset = Some 0\<rparr>) w = Inr [a, b] \<and>
            listDocuments (Some \<lparr>limit = Some 2, offset = Some 2\<rparr>) w = Inr [c, d]))"
proof (intro exI[of _ "orderByCreatedAtDesc (uploadDocuments w)"] conjI allI impI)
  show "sorted_wrt (\<lambda>a b. doc_createdAt b \<le> doc_createdAt a) ds" "length ds \<le> 100"
    "set ds \<subseteq> set (uploadDocuments w)" if "listDocuments input w = Inr ds" for input ds
    using listDocuments_result[OF that] by blast+
  show "set (orderByCreatedAtDesc (uploadDocuments w)) = set (uploadDocuments w)"
    "length (orderByCreatedAtDesc (uploadDocuments w)) = length (uploadDocuments w)"
    "sorted_wrt (\<lambda>a b. doc_createdAt b \<le> doc_createdAt a) (orderByCreatedAtDesc (uploadDocuments w))"
    by (rule ordered_facts)+
  show "listDocuments None w = Inr (take 20 (orderByCreatedAtDesc (uploadDocuments w)))"
    by (simp add: listDocuments_def findMany_def)
  show "listDocuments (Some \<lparr>limit = l, offset = off\<rparr>) w =
         (if (case l of None \<Rightarrow> True | Some n \<Rightarrow> 0 < n \<and> n \<le> 100) \<and>
             (case off of None \<Rightarrow> True | Some m \<Rightarrow> 0 \<le> m)
          then Inr (take (nat (case l of None \<Rightarrow> 20 | Some n \<Rightarrow> n))
                      (drop (nat (case off of None \<Rightarrow> 0 | Some m \<Rightarrow> m))
                         (orderByCreatedAtDesc (uploadDocuments w))))
          else Inl ZodError)" for l off
    by (simp add: listDocuments_def findMany_def listDocumentsSchema_def)
  assume five: "length (uploadDocuments w) = 5 \<and> distinct (map doc_createdAt (uploadDocuments w))"
  then have "length (orderByCreatedAtDesc (uploadDocuments w)) = 5"
    by (simp add: ordered_facts)
  from five_elements[OF this] obtain a b c d e where
    o: "orderByCreatedAtDesc (uploadDocuments w) = [a, b, c, d, e]" by blast
  have "sorted_wrt (\<lambda>a b. doc_createdAt b < doc_createdAt a) (orderByCreatedAtDesc (uploadDocuments w))"
    using five by (intro strictly_descending ordered_facts ordered_distinct) simp
  then have desc: "doc_createdAt b < doc_createdAt a \<and> doc_createdAt c < doc_createdAt b \<and>
            doc_createdAt d < doc_createdAt c \<and> doc_createdAt e < doc_createdAt d"
    unfolding o by simp
  have "listDocuments (Some \<lparr>limit = Some 2, offset = Some 0\<rparr>) w = Inr [a, b] \<and>
        listDocuments (Some \<lparr>limit = Some 2, offset = Some 2\<rparr>) w = Inr [c, d]"
    by (simp add: listDocuments_def findMany_def listDocumentsSchema_def o)
  with o desc show "\<exists>a b c d e. orderByCreatedAtDesc (uploadDocuments w) = [a, b, c, d, e] \<and>
            doc_createdAt b < doc_createdAt a \<and> doc_createdAt c < doc_createdAt b \<and>
            doc_createdAt d < doc_createdAt c \<and> doc_createdAt e < doc_createdAt d \<and>
            listDocuments (Some \<lparr>limit = Some 2, offset = Some 0\<rparr>) w = Inr [a, b] \<and>
            listDocuments (Some \<lparr>limit = Some 2, offset = Some 2\<rparr>) w = Inr [c, d]"
    by blast
qed

text \<open>Five documents created at 10, 50, 30, 20 and 40: the pages are (50, 40) and (30, 20).\<close>

theorem listDocuments_pagination_witness:
  "length (uploadDocuments fiveDocuments) = 5 \<and>
   distinct (map doc_createdAt (uploadDocuments fiveDocuments)) \<and>
   listDocuments (Some \<lparr>limit = Some 2, offset = Some 0\<rparr>) fiveDocuments =
      Inr [docCreatedAt (sampleKey 2) 50, docCreatedAt (sampleKey 5) 40] \<and>
   listDocuments (Some \<lparr>limit = Some 2, offset = Some 2\<rparr>) fiveDocuments =
      Inr [docCreatedAt (sampleKey 3) 30, docCreatedAt (sampleKey 4) 20] \<and>
   (\<exists>a b c d (e::uploadDocumentsRow).
      doc_createdAt b < doc_createdAt a \<and> doc_createdAt c < doc_createdAt b \<and>
      doc_createdAt d < doc_createdAt c \<and> doc_createdAt e < doc_createdAt d \<and>
      listDocuments (Some \<lparr>limit = Some 2, offset = Some 0\<rparr>) fiveDocuments = Inr [a, b] \<and>
      listDocuments (Some \<lparr>limit = Some 2, offset = Some 2\<rparr>) fiveDocuments = Inr [c, d])"
proof -
  have five: "length (uploadDocuments fiveDocuments) = 5 \<and>
      distinct (map doc_createdAt (uploadDocuments fiveDocuments))"
    by (simp add: fiveDocuments_def docCreatedAt_def)
  have pages: "listDocuments (Some \<lparr>limit = Some 2, offset = Some 0\<rparr>) fiveDocuments =
      Inr [docCreatedAt (sampleKey 2) 50, docCreatedAt (sampleKey 5) 40] \<and>
    listDocuments (Some \<lparr>limit = Some 2, offset = Some 2\<rparr>) fiveDocuments =
      Inr [docCreatedAt (sampleKey 3) 30, docCreatedAt (sampleKey 4) 20]"
    by (simp add: listDocuments_def findMany_def listDocumentsSchema_def orderByCreatedAtDesc_def
         fiveDocuments_def docCreatedAt_def scenario_defs)
  from listDocuments_pagination[of fiveDocuments]
  obtain ordered where imp:
    "length (uploadDocuments fiveDocuments) = 5 \<and>
       distinct (map doc_createdAt (uploadDocuments fiveDocuments)) \<longrightarrow>
     (\<exists>a b c d e. ordered = [a, b, c, d, e] \<and>
        doc_createdAt b < doc_createdAt a \<and> doc_createdAt c < doc_createdAt b \<and>
        doc_createdAt d < doc_createdAt c \<and> doc_createdAt e < doc_createdAt d \<and>
        listDocuments (Some \<lparr>limit = Some 2, offset = Some 0\<rparr>) fiveDocuments = Inr [a, b] \<and>
        listDocuments (Some \<lparr>limit = Some 2, offset = Some 2\<rparr>) fiveDocuments = Inr [c, d])"
    by (elim exE conjE) (erule that)
  from mp[OF imp five]
  have "\<exists>a b c d (e::uploadDocumentsRow).
      doc_createdAt b < doc_createdAt a \<and> doc_createdAt c < doc_createdAt b \<and>
      doc_createdAt d < doc_createdAt c \<and> doc_createdAt e < doc_createdAt d \<and>
      listDocuments (Some \<lparr>limit = Some 2, offset = Some 0\<rparr>) fiveDocuments = Inr [a, b] \<and>
      listDocuments (Some \<lparr>limit = Some 2, offset = Some 2\<rparr>) fiveDocuments = Inr [c, d]"
    by (elim exE conjE) (intro exI conjI; assumption)
  with five pages show ?thesis by (intro conjI) simp_all
qed

text \<open>
  Claim C7. Writing a Page Record that the store accepts (the page has no row yet) and
  reading the document's pages back gives exactly one row with that page number, whose
  three arrays are the arrays written, same length and same value at every position,
  \<open>null\<close>s included, and whose \<open>unsureFields\<close> is the list written; the page list read
  back is in ascending order of page number.
\<close>

theorem page_record_round_trip:
  assumes "\<not> storeRejects e (writes w)"
      and "\<forall>r \<in> set (extractedPageData w).
             \<not> (row_documentId r = d \<and> row_pageNumber r = pageNumber pageData)"
  shows "\<exists>w'. saveExtractedPageData e d pageData db w = (Inr (), w') \<and>
           (\<exists>r. filter (\<lambda>r. row_pageNumber r = pageNumber pageData) (getExtractedData d w') = [r] \<and>
                row_containerNumbers r = containerNumbers pageData \<and>
                row_containerSizes r = containerSizes pageData \<and>
                row_fullEmptyStatuses r = fullEmptyStatuses pageData \<and>
                row_unsureFields r = unsureFields pageData) \<and>
           sorted (map row_pageNumber (getExtractedData d w'))"
proof -
  define w' where "w' = (statementDone e w)\<lparr>extractedPageData :=
      extractedPageData w @ [pageValues d pageData]\<rparr>"
  have save: "saveExtractedPageData e d pageData db w = (Inr (), w')"
    using assms by (simp add: saveExtractedPageData_def storeWrite_def w'_def)
  have none: "filter (\<lambda>r. row_pageNumber r = pageNumber pageData)
                (filter (\<lambda>r. row_documentId r = d) (extractedPageData w)) = []"
    using assms(2) by (auto simp: filter_empty_conv)
  have "filter (\<lambda>r. row_pageNumber r = pageNumber pageData) (getExtractedData d w') =
        sort_key row_pageNumber
          (filter (\<lambda>r. row_pageNumber r = pageNumber pageData)
             (filter (\<lambda>r. row_documentId r = d) (extractedPageData w @ [pageValues d pageData])))"
    by (simp add: getExtractedData_def w'_def filter_sort)
  also have "\<dots> = [pageValues d pageData]"
    using none by (simp add: pageValues_def)
  finally have one: "filter (\<lambda>r. row_pageNumber r = pageNumber pageData) (getExtractedData d w') =
      [pageValues d pageData]" .
  have "sorted (map row_pageNumber (getExtractedData d w'))"
    by (simp add: getExtractedData_def)
  then show ?thesis using save one by (auto simp: pageValues_def)
qed

text \<open>The arrays \<open>["A1", null]\<close>, \<open>["20ft", null]\<close>, \<open>["FULL", null]\<close> come back as written.\<close>

theorem page_record_round_trip_witness:
  "\<exists>w'. saveExtractedPageData throwingStub documentOne nullsPage DB sampleWorld = (Inr (), w') \<and>
      (\<exists>r. filter (\<lambda>r. row_pageNumber r = 1) (getExtractedData documentOne w') = [r] \<and>
           row_containerNumbers r = [Some ''A1'', None] \<and>
           row_containerSizes r = [Some ''20ft'', None] \<and>
           row_fullEmptyStatuses r = [Some ''FULL'', None] \<and>
           row_unsureFields r = [''containerNumbers'']) \<and>
      sorted (map row_pageNumber (getExtractedData documentOne w'))"
proof -
  have accepted: "\<not> storeRejects throwingStub (writes sampleWorld)"
    by (simp add: throwingStub_def)
  have unused: "\<forall>r \<in> set (extractedPageData sampleWorld).
      \<not> (row_documentId r = documentOne \<and> row_pageNumber r = pageNumber nullsPage)"
    by (simp add: sampleWorld_def)
  from page_record_round_trip[OF accepted unused, of DB]
  show ?thesis by (simp add: nullsPage_def)
qed



section \<open>Status update without a handle, and usage categories\<close>

text \<open>
  Claim C9. A call of \<open>updateDocumentStatus\<close> whose database handle is absent returns
  normally, raises nothing and performs no update: the state it returns is the state it
  was given, whatever the document id, the status and the extraction id are.
\<close>

theorem updateDocumentStatus_without_handle:
  "updateDocumentStatus e documentId status extractionId None w = (Inr (), w)"
  by (simp add: updateDocumentStatus_def)

text \<open>On the sample store: no error, and the store is the one given.\<close>

theorem updateDocumentStatus_without_handle_witness:
  "updateDocumentStatus throwingStub documentOne COMPLETED (Some (sampleUUID 0)) None sampleWorld =
     (Inr (), sampleWorld)"
  by (rule updateDocumentStatus_without_handle)

text \<open>
  Claim C10. Every usage record a run of the pipeline persists (the rows the run appends
  to \<open>document_token_usage\<close>, whether the run ends COMPLETED or FAILED) comes from the
  model call of one page \<open>p\<close> of the run, whose request id it carries, and that call
  reported usage; the record's output tokens and its candidates tokens are both the
  completion-token count that call reported (0 when the call reported none), so they are
  equal; and its tool-use, cached-content and thoughts tokens are 0.
\<close>

theorem usage_record_categories:
  assumes "extractPODDataFromPDF e d buf db w = (res, w')"
  shows "\<exists>new. documentTokenUsage w' = documentTokenUsage w @ new \<and>
           (\<forall>u \<in> set new.
              (\<exists>p r usage. 1 \<le> p \<and> tu_requestId u = randomUUID e (uuidCount w + p) \<and>
                 fst (generateObject e buf p) = Inr r \<and> result_usage r = Some usage \<and>
                 tu_outputTokens u = (case completionTokens usage of None \<Rightarrow> 0 | Some n \<Rightarrow> n) \<and>
                 tu_candidatesTokens u = (case completionTokens usage of None \<Rightarrow> 0 | Some n \<Rightarrow> n)) \<and>
              tu_outputTokens u = tu_candidatesTokens u \<and>
              tu_toolUsePromptTokens u = 0 \<and> tu_cachedContentTokens u = 0 \<and>
              tu_thoughtsTokens u = 0)"
proof -
  have w': "w' = snd (extractPODDataFromPDF e d buf db w)" using assms by simp
  show ?thesis
  proof (cases "storeRejects e (writes w) \<or> (\<exists>err. pdf e buf = Inl err)")
    case True
    from run_usage_stopped[OF this] show ?thesis
      unfolding w' by (intro exI[of _ "[]"]) simp
  next
    case False
    then have accepted: "\<not> storeRejects e (writes w)" by simp
    from False obtain N where parse: "pdf e buf = Inr N" by (cases "pdf e buf") auto
    let ?new = "concat (map (\<lambda>p. pageUsage e buf d (clock w) p (pageEntry e buf d db w p)) [1..<Suc N])"
    have "\<forall>u \<in> set ?new.
              (\<exists>p r usage. 1 \<le> p \<and> tu_requestId u = randomUUID e (uuidCount w + p) \<and>
                 fst (generateObject e buf p) = Inr r \<and> result_usage r = Some usage \<and>
                 tu_outputTokens u = (case completionTokens usage of None \<Rightarrow> 0 | Some n \<Rightarrow> n) \<and>
                 tu_candidatesTokens u = (case completionTokens usage of None \<Rightarrow> 0 | Some n \<Rightarrow> n)) \<and>
              tu_outputTokens u = tu_candidatesTokens u \<and>
              tu_toolUsePromptTokens u = 0 \<and> tu_cachedContentTokens u = 0 \<and>
              tu_thoughtsTokens u = 0"
    proof
      fix u assume "u \<in> set ?new"
      then obtain p where p: "p \<in> set [1..<Suc N]"
        and u: "u \<in> set (pageUsage e buf d (clock w) p (pageEntry e buf d db w p))"
        unfolding set_concat set_map by blast
      from p have one: "1 \<le> p" by (simp del: upt_Suc)
      from pageUsage_rows[OF u] obtain r usage where row:
        "tu_requestId u = randomUUID e (uuidCount (pageEntry e buf d db w p))"
        "fst (generateObject e buf p) = Inr r" "result_usage r = Some usage"
        "tu_outputTokens u = (case completionTokens usage of None \<Rightarrow> 0 | Some n \<Rightarrow> n)"
        "tu_candidatesTokens u = (case completionTokens usage of None \<Rightarrow> 0 | Some n \<Rightarrow> n)"
        "tu_toolUsePromptTokens u = 0" "tu_cachedContentTokens u = 0" "tu_thoughtsTokens u = 0"
        by blast
      have id: "tu_requestId u = randomUUID e (uuidCount w + p)"
        using row(1) pageEntry_frame(1)[OF one, of e buf d db w] by simp
      have same: "tu_outputTokens u = tu_candidatesTokens u" using row(4,5) by simp
      from one id row(2-5) have "\<exists>p r usage. 1 \<le> p \<and> tu_requestId u = randomUUID e (uuidCount w + p) \<and>
                 fst (generateObject e buf p) = Inr r \<and> result_usage r = Some usage \<and>
                 tu_outputTokens u = (case completionTokens usage of None \<Rightarrow> 0 | Some n \<Rightarrow> n) \<and>
                 tu_candidatesTokens u = (case completionTokens usage of None \<Rightarrow> 0 | Some n \<Rightarrow> n)"
        by blast
      with same row(6-8) show "(\<exists>p r usage. 1 \<le> p \<and> tu_requestId u = randomUUID e (uuidCount w + p) \<and>
                 fst (generateObject e buf p) = Inr r \<and> result_usage r = Some usage \<and>
                 tu_outputTokens u = (case completionTokens usage of None \<Rightarrow> 0 | Some n \<Rightarrow> n) \<and>
                 tu_candidatesTokens u = (case completionTokens usage of None \<Rightarrow> 0 | Some n \<Rightarrow> n)) \<and>
              tu_outputTokens u = tu_candidatesTokens u \<and>
              tu_toolUsePromptTokens u = 0 \<and> tu_cachedContentTokens u = 0 \<and>
              tu_thoughtsTokens u = 0"
        by blast
    qed
    then show ?thesis
      unfolding w' run_usage[OF accepted parse] by (intro exI[of _ ?new] conjI refl)
  qed
qed

text \<open>
  The three-page run, whose model calls report 20, no and 30 completion tokens: the
  three records carry 20, 0 and 30 as output tokens and as candidates tokens.
\<close>

theorem usage_record_categories_witness:
  "map tu_outputTokens (documentTokenUsage
       (snd (extractPODDataFromPDF usageStub documentOne ''%PDF'' DB sampleWorld))) =
     [20, 0, 30] \<and>
   map tu_candidatesTokens (documentTokenUsage
       (snd (extractPODDataFromPDF usageStub documentOne ''%PDF'' DB sampleWorld))) =
     [20, 0, 30] \<and>
   (\<exists>new. documentTokenUsage
            (snd (extractPODDataFromPDF usageStub documentOne ''%PDF'' DB sampleWorld)) =
          documentTokenUsage sampleWorld @ new \<and>
      (\<forall>u \<in> set new.
         (\<exists>p r usage. 1 \<le> p \<and>
            tu_requestId u = randomUUID usageStub (uuidCount sampleWorld + p) \<and>
            fst (generateObject usageStub ''%PDF'' p) = Inr r \<and> result_usage r = Some usage \<and>
            tu_outputTokens u = (case completionTokens usage of None \<Rightarrow> 0 | Some n \<Rightarrow> n) \<and>
            tu_candidatesTokens u = (case completionTokens usage of None \<Rightarrow> 0 | Some n \<Rightarrow> n)) \<and>
         tu_outputTokens u = tu_candidatesTokens u \<and>
         tu_toolUsePromptTokens u = 0 \<and> tu_cachedContentTokens u = 0 \<and>
         tu_thoughtsTokens u = 0))"
proof (intro conjI)
  show "map tu_outputTokens (documentTokenUsage
       (snd (extractPODDataFromPDF usageStub documentOne ''%PDF'' DB sampleWorld))) =
     [20, 0, 30]"
    by (simp add: eval_defs scenario_defs)
next
  show "map tu_candidatesTokens (documentTokenUsage
       (snd (extractPODDataFromPDF usageStub documentOne ''%PDF'' DB sampleWorld))) =
     [20, 0, 30]"
    by (simp add: eval_defs scenario_defs)
next
  show "\<exists>new. documentTokenUsage
            (snd (extractPODDataFromPDF usageStub documentOne ''%PDF'' DB sampleWorld)) =
          documentTokenUsage sampleWorld @ new \<and>
      (\<forall>u \<in> set new.
         (\<exists>p r usage. 1 \<le> p \<and>
            tu_requestId u = randomUUID usageStub (uuidCount sampleWorld + p) \<and>
            fst (generateObject usageStub ''%PDF'' p) = Inr r \<and> result_usage r = Some usage \<and>
            tu_outputTokens u = (case completionTokens usage of None \<Rightarrow> 0 | Some n \<Rightarrow> n) \<and>
            tu_candidatesTokens u = (case completionTokens usage of None \<Rightarrow> 0 | Some n \<Rightarrow> n)) \<and>
         tu_outputTokens u = tu_candidatesTokens u \<and>
         tu_toolUsePromptTokens u = 0 \<and> tu_cachedContentTokens u = 0 \<and>
         tu_thoughtsTokens u = 0)"
    by (rule usage_record_categories[OF prod.collapse[symmetric]])
qed


end
